theory Spec2Isabelle
  imports Main
begin

section \<open>JSON values as Python sees them\<close>

text \<open>
  The content documents are JSON texts; \<open>json.loads\<close> turns them into Python values.
  A JSON object becomes a \<open>dict\<close>, which keeps the order of insertion: it is an
  association list here (\<open>json.loads\<close> yields distinct keys). Numbers are integers;
  the module never computes with them, only their truth value is used.
\<close>

datatype json =
    JNull
  | JBool bool
  | JNum int
  | JStr string
  | JArr "json list"
  | JObj "(string \<times> json) list"

text \<open>Python's truth value of a loaded JSON value (\<open>if x\<close>, \<open>not x\<close>).\<close>

fun truthy :: "json \<Rightarrow> bool" where
  "truthy JNull = False"
| "truthy (JBool b) = b"
| "truthy (JNum n) = (n \<noteq> 0)"
| "truthy (JStr s) = (s \<noteq> [])"
| "truthy (JArr xs) = (xs \<noteq> [])"
| "truthy (JObj kvs) = (kvs \<noteq> [])"

text \<open>\<open>d[k] = v\<close> on a dict: an existing key keeps its place, a new key goes last.\<close>

fun dict_set :: "(string \<times> json) list \<Rightarrow> string \<Rightarrow> json \<Rightarrow> (string \<times> json) list" where
  "dict_set [] k v = [(k, v)]"
| "dict_set ((k', v') # kvs) k v =
     (if k' = k then (k, v) # kvs else (k', v') # dict_set kvs k v)"

text \<open>
  \<open>str.lower()\<close>, on the ASCII letters. Strings are byte lists here, so the content
  type names are taken to be ASCII, as the registry's names are.
\<close>

definition lower_char :: "char \<Rightarrow> char" where
  "lower_char c =
     (case map_of (zip ''ABCDEFGHIJKLMNOPQRSTUVWXYZ'' ''abcdefghijklmnopqrstuvwxyz'') c of
        None \<Rightarrow> c
      | Some d \<Rightarrow> d)"

definition lower :: "string \<Rightarrow> string" where
  "lower s = map lower_char s"

text \<open>\<open>str(x)\<close> and \<open>"%s" % x\<close> for a value that is a string or \<open>None\<close>.\<close>

definition py_str :: "string option \<Rightarrow> string" where
  "py_str x = (case x of None \<Rightarrow> ''None'' | Some s \<Rightarrow> s)"

section \<open>Errors\<close>

text \<open>
  \<open>get_error_detail\<close> builds a dict with the keys \<open>account_id\<close>, \<open>content_type\<close> and
  \<open>image_digest\<close>; the content type is \<open>None\<close> for the multi-type getter.
\<close>

record error_detail =
  detail_account_id :: string
  detail_content_type :: "string option"
  detail_image_digest :: string

text \<open>
  Every exception the module raises or lets through. \<open>ResourceNotFound\<close> and
  \<open>BadRequest\<close> are the API exception classes, built with a message and
  \<open>detail=...\<close>. \<open>AnchoreException\<close> stands for a value made by
  \<open>make_anchore_exception\<close> from a cause, a message and an HTTP code. The others are
  the Python exceptions of the operations used: a failing object store call, a text that
  is not JSON, a missing key, a value of the wrong type, a missing attribute or method, a
  body that does not decode (\<open>binascii.Error\<close>, \<open>UnicodeDecodeError\<close>), and a failure
  of the response formatter.
\<close>

datatype error =
    ResourceNotFound string error_detail
  | BadRequest string error_detail
  | AnchoreException error string nat
  | ObjectStoreError
  | JSONDecodeError
  | KeyError string
  | TypeError
  | AttributeError string
  | DecodeError
  | FormatError

section \<open>The image record\<close>

text \<open>
  The dict \<open>db_catalog_image.get\<close> returns for an image: the fields this module reads.
  An entry of \<open>image_detail\<close> carries the legacy base64 Dockerfile body, or none.
\<close>

record image_detail =
  dockerfile :: "string option"

record image_report =
  imageDigest :: string
  analysis_status :: string
  dockerfile_mode :: "string option"
  image_detail :: "image_detail list"

section \<open>The object store\<close>

text \<open>
  Modelled from the spec: the object store manager (\<open>obj_mgr\<close>) is not part of this
  module. Its interface is \<open>get(accountId, category, key) -> bytes | fails\<close> and
  \<open>put(accountId, category, key, bytes) -> fails-or-succeeds\<close>. The store is a state:
  the objects, which keys a read or a write fails on, and the calls made so far, oldest
  first. A stored text is described by what \<open>json.loads\<close> makes of it.
\<close>

type_synonym obj_key = "string \<times> string \<times> string"

datatype blob = NotJson | JsonText json

datatype store_call = StoreGet obj_key | StorePut obj_key blob

record object_store =
  objects :: "obj_key \<Rightarrow> blob option"
  get_fails :: "obj_key \<Rightarrow> bool"
  put_fails :: "obj_key \<Rightarrow> bool"
  calls :: "store_call list"

text \<open>
  Modelled from the spec: \<open>get(accountId, category, key) -> bytes | fails\<close>. The call is
  recorded; it fails on a key marked as failing and on a key that holds no object.
\<close>

definition obj_get :: "object_store \<Rightarrow> obj_key \<Rightarrow> (error + blob) \<times> object_store" where
  "obj_get s k =
     (let s' = s\<lparr>calls := calls s @ [StoreGet k]\<rparr>
      in if get_fails s k then (Inl ObjectStoreError, s')
         else (case objects s k of
                 None \<Rightarrow> (Inl ObjectStoreError, s')
               | Some b \<Rightarrow> (Inr b, s')))"

text \<open>
  Modelled from the spec: \<open>put(accountId, category, key, bytes) -> fails-or-succeeds\<close>.
  The call is recorded; it fails on a key marked as failing and stores the object
  otherwise.
\<close>

definition obj_put :: "object_store \<Rightarrow> obj_key \<Rightarrow> blob \<Rightarrow> (error + unit) \<times> object_store" where
  "obj_put s k b =
     (let s' = s\<lparr>calls := calls s @ [StorePut k b]\<rparr>
      in if put_fails s k then (Inl ObjectStoreError, s')
         else (Inr (), s'\<lparr>objects := (objects s)(k \<mapsto> b)\<rparr>))"

text \<open>\<open>json.loads(utils.ensure_str(bytes))\<close> and \<open>utils.ensure_bytes(json.dumps(value))\<close>.\<close>

definition json_loads :: "blob \<Rightarrow> error + json" where
  "json_loads b = (case b of NotJson \<Rightarrow> Inl JSONDecodeError | JsonText j \<Rightarrow> Inr j)"

definition json_dumps :: "json \<Rightarrow> blob" where
  "json_dumps j = JsonText j"

text \<open>
  \<open>x[k]\<close> with a string (or \<open>None\<close>) \<open>k\<close>: a dict looks the key up and raises
  \<open>KeyError\<close> when it is missing; every other JSON value raises \<open>TypeError\<close>.
\<close>

fun py_getitem :: "json \<Rightarrow> string option \<Rightarrow> error + json" where
  "py_getitem (JObj kvs) (Some k) =
     (case map_of kvs k of None \<Rightarrow> Inl (KeyError k) | Some v \<Rightarrow> Inr v)"
| "py_getitem (JObj kvs) None = Inl (KeyError ''None'')"
| "py_getitem j k = Inl TypeError"

text \<open>
  \<open>k in x\<close> with a string (or \<open>None\<close>) \<open>k\<close>: key membership in a dict, element
  membership in a list, substring test in a string (\<open>TypeError\<close> for \<open>None\<close>), and
  \<open>TypeError\<close> for a value that is not a container.
\<close>

definition is_substring :: "string \<Rightarrow> string \<Rightarrow> bool" where
  "is_substring c s = (\<exists>i \<in> set (upt 0 (Suc (length s))). take (length c) (drop i s) = c)"

fun py_in :: "string option \<Rightarrow> json \<Rightarrow> error + bool" where
  "py_in (Some k) (JObj kvs) = Inr (k \<in> fst ` set kvs)"
| "py_in None (JObj kvs) = Inr False"
| "py_in (Some k) (JArr xs) = Inr (JStr k \<in> set xs)"
| "py_in None (JArr xs) = Inr (JNull \<in> set xs)"
| "py_in (Some k) (JStr s) = Inr (is_substring k s)"
| "py_in k j = Inl TypeError"

section \<open>The collaborators outside the module\<close>

text \<open>
  What the module imports and this file does not define is a parameter:
  the record lookup \<open>db_catalog_image.get(digest, account)\<close>; the two state names
  \<open>taskstate.complete_state("analyze")\<close> and \<open>taskstate.working_state("analyze")\<close>;
  the response formatter \<open>helpers.make_image_content_response(content_type, payload)\<close>,
  which may raise; the registry \<open>image_content_types\<close>; the wrapper
  \<open>make_anchore_exception(err, input_message, input_httpcode)\<close>; and
  \<open>utils.ensure_str(base64.decodebytes(utils.ensure_bytes(body)))\<close>, which raises on a
  body that does not decode.
\<close>

record env =
  db_catalog_image_get :: "string \<Rightarrow> string \<Rightarrow> image_report option"
  complete_state_analyze :: string
  working_state_analyze :: string
  make_image_content_response :: "string option \<Rightarrow> json \<Rightarrow> error + json"
  image_content_types :: "string list"
  make_anchore_exception :: "error \<Rightarrow> string \<Rightarrow> nat \<Rightarrow> error"
  decode_dockerfile :: "string \<Rightarrow> error + string"

section \<open>The getters\<close>

text \<open>
  The four classes. \<open>Base\<close> is \<open>ImageContentGetter\<close>, \<open>Manifest\<close> is
  \<open>ImageManifestContentGetter\<close>, \<open>Dockerfile\<close> is \<open>ImageDockerfileContentGetter\<close> and
  \<open>Multi\<close> is \<open>MultipleContentTypesGetter\<close>. The two class flags are functions of
  the class.
\<close>

datatype variant = Base | Manifest | Dockerfile | Multi

definition normalize_to_user_format_on_load :: "variant \<Rightarrow> bool" where
  "normalize_to_user_format_on_load v = (v = Base \<or> v = Manifest)"

definition verify_content_type :: "variant \<Rightarrow> bool" where
  "verify_content_type v = (v \<noteq> Multi)"

text \<open>
  The attributes of a getter. \<open>content_types\<close> is \<open>None\<close> when the attribute was
  never set on the object.
\<close>

record getter =
  account_id :: string
  content_type :: "string option"
  image_digest :: string
  content_types :: "string list option"

definition ImageContentGetter_init :: "string \<Rightarrow> string \<Rightarrow> string \<Rightarrow> getter" where
  "ImageContentGetter_init account ctype digest =
     \<lparr>account_id = account, content_type = Some ctype, image_digest = digest,
      content_types = None\<rparr>"

text \<open>
  \<open>MultipleContentTypesGetter.__init__\<close>: the attribute is set only when the list is
  not empty.
\<close>

definition MultipleContentTypesGetter_init :: "string \<Rightarrow> string list \<Rightarrow> string \<Rightarrow> getter" where
  "MultipleContentTypesGetter_init account ctypes digest =
     \<lparr>account_id = account, content_type = None, image_digest = digest,
      content_types = (if ctypes \<noteq> [] then Some (map lower ctypes) else None)\<rparr>"

definition get_error_detail :: "getter \<Rightarrow> error_detail" where
  "get_error_detail self =
     \<lparr>detail_account_id = account_id self,
      detail_content_type = content_type self,
      detail_image_digest = image_digest self\<rparr>"

definition verify_analysis_status :: "env \<Rightarrow> getter \<Rightarrow> image_report \<Rightarrow> bool \<Rightarrow> error + unit" where
  "verify_analysis_status e self report allow_analyzing_state =
     (let allowed_states =
            [complete_state_analyze e] @
            (if allow_analyzing_state then [working_state_analyze e] else [])
      in if analysis_status report \<notin> set allowed_states
         then Inl (ResourceNotFound
                     (''image is not analyzed - analysis_status: '' @ analysis_status report)
                     (get_error_detail self))
         else Inr ())"

text \<open>The body of the \<open>try\<close> of both fetch methods: read, parse, take \<open>"document"\<close>.\<close>

definition load_document :: "object_store \<Rightarrow> obj_key \<Rightarrow> (error + json) \<times> object_store" where
  "load_document s k =
     (case obj_get s k of
        (Inl err, s') \<Rightarrow> (Inl err, s')
      | (Inr b, s') \<Rightarrow>
          (case json_loads b of
             Inl err \<Rightarrow> (Inl err, s')
           | Inr j \<Rightarrow> (py_getitem j (Some ''document''), s')))"

text \<open>
  \<open>get_image_content_data\<close>, with the override of the manifest getter: it reads the
  category \<open>manifest_data\<close> and wraps the document under the key \<open>manifest\<close>.
\<close>

definition get_image_content_data ::
  "env \<Rightarrow> variant \<Rightarrow> getter \<Rightarrow> string \<Rightarrow> object_store \<Rightarrow> (error + json) \<times> object_store" where
  "get_image_content_data e v self digest s =
     (if v = Manifest then
        (case load_document s (account_id self, ''manifest_data'', digest) of
           (Inl err, s') \<Rightarrow>
             (Inl (make_anchore_exception e err
                     (''cannot fetch content data '' @ py_str (content_type self) @ '' from archive'')
                     500), s')
         | (Inr d, s') \<Rightarrow> (Inr (JObj [(''manifest'', d)]), s'))
      else
        (case load_document s (account_id self, ''image_content_data'', digest) of
           (Inl err, s') \<Rightarrow>
             (Inl (make_anchore_exception e err ''cannot fetch content data from archive'' 500), s')
         | (Inr d, s') \<Rightarrow> (Inr d, s')))"

text \<open>
  \<open>helpers.make_image_content_response(self.content_type,
  image_content_data[self.content_type])\<close>: the subscript is evaluated first.
\<close>

definition make_response :: "env \<Rightarrow> getter \<Rightarrow> json \<Rightarrow> error + json" where
  "make_response e self doc =
     (case py_getitem doc (content_type self) of
        Inl err \<Rightarrow> Inl err
      | Inr payload \<Rightarrow> make_image_content_response e (content_type self) payload)"

text \<open>
  The loop of the Dockerfile getter over \<open>image_report["image_detail"]\<close>, inside its
  \<open>try\<close>. An entry without a body is skipped. The first entry with a body is decoded,
  stored in the in-memory document and written back, and the loop ends. The result is
  the exception that left the loop, if any, with the document and the store as they are
  then: the document keeps the new entry when only the write failed.
\<close>

fun migrate_details ::
  "env \<Rightarrow> getter \<Rightarrow> image_report \<Rightarrow> image_detail list \<Rightarrow> (string \<times> json) list \<Rightarrow> object_store
    \<Rightarrow> error option \<times> (string \<times> json) list \<times> object_store" where
  "migrate_details e self report [] doc s = (None, doc, s)"
| "migrate_details e self report (d # ds) doc s =
     (case dockerfile d of
        None \<Rightarrow> migrate_details e self report ds doc s
      | Some body \<Rightarrow>
          if body = [] then migrate_details e self report ds doc s
          else
            (case decode_dockerfile e body of
               Inl err \<Rightarrow> (Some err, doc, s)
             | Inr txt \<Rightarrow>
                 (let doc' = dict_set doc ''dockerfile'' (JStr txt) in
                  (case obj_put s (account_id self, ''image_content_data'', imageDigest report)
                          (json_dumps (JObj [(''document'', JObj doc')])) of
                     (Inl err, s') \<Rightarrow> (Some err, doc', s')
                   | (Inr u, s') \<Rightarrow> (None, doc', s')))))"

text \<open>
  \<open>hydrate_additional_data\<close> of the Dockerfile getter. \<open>.get\<close> exists on a dict only.
  An exception inside the \<open>try\<close> is logged and dropped; the last statement formats
  what the document holds then. (The formatter call inside the \<open>try\<close>, for a mode other
  than \<open>Actual\<close>, is repeated by the last statement when it raises, with the same
  arguments.)
\<close>

definition hydrate_dockerfile ::
  "env \<Rightarrow> getter \<Rightarrow> json \<Rightarrow> image_report \<Rightarrow> object_store \<Rightarrow> (error + json) \<times> object_store" where
  "hydrate_dockerfile e self image_content_data report s =
     (case image_content_data of
        JObj doc \<Rightarrow>
          if (case map_of doc ''dockerfile'' of None \<Rightarrow> False | Some p \<Rightarrow> truthy p)
          then (make_response e self image_content_data, s)
          else if dockerfile_mode report \<noteq> Some ''Actual''
          then (make_response e self image_content_data, s)
          else
            (case migrate_details e self report (image_detail report) doc s of
               (err, doc', s') \<Rightarrow> (make_response e self (JObj doc'), s'))
      | _ \<Rightarrow> (Inl (AttributeError ''get''), s))"

text \<open>
  \<open>_is_content_type_match\<close>: the key must be a non-empty registry name; then
  \<open>all\<close> among the requested names matches everything, otherwise the lower-cased key
  must be among them. Reading \<open>self.content_types\<close> fails when the attribute is not set.
\<close>

definition is_content_type_match :: "env \<Rightarrow> getter \<Rightarrow> string \<Rightarrow> error + bool" where
  "is_content_type_match e self ctype =
     (if ctype = [] \<or> ctype \<notin> set (image_content_types e) then Inr False
      else (case content_types self of
              None \<Rightarrow> Inl (AttributeError ''content_types'')
            | Some requested \<Rightarrow>
                if ''all'' \<in> set requested then Inr True
                else Inr (lower ctype \<in> set requested)))"

text \<open>The dict comprehension over \<open>image_content_data.items()\<close>, in order.\<close>

fun gather ::
  "env \<Rightarrow> getter \<Rightarrow> (string \<times> json) list \<Rightarrow> (string \<times> json) list \<Rightarrow> error + (string \<times> json) list" where
  "gather e self [] results = Inr results"
| "gather e self ((c_type, packages) # items) results =
     (case is_content_type_match e self c_type of
        Inl err \<Rightarrow> Inl err
      | Inr False \<Rightarrow> gather e self items results
      | Inr True \<Rightarrow>
          (case make_image_content_response e (Some c_type) packages of
             Inl err \<Rightarrow> Inl err
           | Inr r \<Rightarrow> gather e self items (dict_set results c_type r)))"

text \<open>\<open>hydrate_additional_data\<close> of the multi-type getter.\<close>

definition hydrate_multi :: "env \<Rightarrow> getter \<Rightarrow> json \<Rightarrow> error + json" where
  "hydrate_multi e self image_content_data =
     (if \<not> truthy image_content_data then Inr (JObj [])
      else (case content_types self of
              None \<Rightarrow> Inl (AttributeError ''content_types'')
            | Some requested \<Rightarrow>
                if requested = [] then Inr (JObj [])
                else (case image_content_data of
                        JObj doc \<Rightarrow>
                          (case gather e self doc [] of
                             Inl err \<Rightarrow> Inl err
                           | Inr results \<Rightarrow> Inr (JObj results))
                      | _ \<Rightarrow> Inl (AttributeError ''items''))))"

definition hydrate_additional_data ::
  "env \<Rightarrow> variant \<Rightarrow> getter \<Rightarrow> json \<Rightarrow> image_report \<Rightarrow> object_store
    \<Rightarrow> (error + json) \<times> object_store" where
  "hydrate_additional_data e v self image_content_data report s =
     (case v of
        Dockerfile \<Rightarrow> hydrate_dockerfile e self image_content_data report s
      | Multi \<Rightarrow> (hydrate_multi e self image_content_data, s)
      | _ \<Rightarrow> (Inr image_content_data, s))"

text \<open>
  \<open>get\<close>: the record lookup, the state check, the fetch, the presence check (skipped
  without evaluating \<open>in\<close> when the class flag is off), the formatting on load and the
  hook of the class.
\<close>

definition get :: "env \<Rightarrow> variant \<Rightarrow> getter \<Rightarrow> bool \<Rightarrow> object_store \<Rightarrow> (error + json) \<times> object_store" where
  "get e v self allow_analyzing_state s =
     (case db_catalog_image_get e (image_digest self) (account_id self) of
        None \<Rightarrow> (Inl (ResourceNotFound ''Image not found'' (get_error_detail self)), s)
      | Some report \<Rightarrow>
          (case verify_analysis_status e self report allow_analyzing_state of
             Inl err \<Rightarrow> (Inl err, s)
           | Inr u \<Rightarrow>
               (case get_image_content_data e v self (image_digest self) s of
                  (Inl err, s1) \<Rightarrow> (Inl err, s1)
                | (Inr image_content_data, s1) \<Rightarrow>
                    (case (if verify_content_type v
                           then py_in (content_type self) image_content_data
                           else Inr True) of
                       Inl err \<Rightarrow> (Inl err, s1)
                     | Inr False \<Rightarrow>
                         (Inl (BadRequest
                                 (''image content of type ('' @ py_str (content_type self) @
                                  '') was not an available type at analysis time for this image'')
                                 (get_error_detail self)), s1)
                     | Inr True \<Rightarrow>
                         (if normalize_to_user_format_on_load v then
                            (case make_response e self image_content_data of
                               Inl err \<Rightarrow> (Inl err, s1)
                             | Inr normalized \<Rightarrow>
                                 hydrate_additional_data e v self normalized report s1)
                          else hydrate_additional_data e v self image_content_data report s1)))))"

section \<open>Sample data for the concrete evaluations\<close>

definition sample_report :: "string \<Rightarrow> string \<Rightarrow> string option \<Rightarrow> image_detail list \<Rightarrow> image_report" where
  "sample_report digest status mode details =
     \<lparr>imageDigest = digest, analysis_status = status, dockerfile_mode = mode,
      image_detail = details\<rparr>"

text \<open>
  A formatter for the evaluations: an empty payload gives the empty list, a Dockerfile
  text is returned as it is, every other payload becomes a one-element list.
\<close>

definition sample_formatter :: "string option \<Rightarrow> json \<Rightarrow> error + json" where
  "sample_formatter ctype payload =
     (if \<not> truthy payload then Inr (JArr [])
      else if ctype = Some ''dockerfile'' then Inr payload
      else Inr (JArr [payload]))"

text \<open>
  A stand-in for the decoder in the evaluations: it decodes the one body used there and
  raises on every other one (as base64 decoding does on \<open>A\<close>, whose padding is
  incorrect).
\<close>

definition sample_decode :: "string \<Rightarrow> error + string" where
  "sample_decode body =
     (if body = ''RlJPTSBzY3JhdGNo'' then Inr ''FROM scratch'' else Inl DecodeError)"

definition sample_env :: "(string \<Rightarrow> string \<Rightarrow> image_report option) \<Rightarrow> env" where
  "sample_env db =
     \<lparr>db_catalog_image_get = db,
      complete_state_analyze = ''analyzed'',
      working_state_analyze = ''analyzing'',
      make_image_content_response = sample_formatter,
      image_content_types = [''os'', ''java'', ''python''],
      make_anchore_exception = AnchoreException,
      decode_dockerfile = sample_decode\<rparr>"

definition sample_db :: "image_report \<Rightarrow> string \<Rightarrow> string \<Rightarrow> image_report option" where
  "sample_db report digest account =
     (if digest = imageDigest report then Some report else None)"

definition sample_store :: "(obj_key \<Rightarrow> blob option) \<Rightarrow> object_store" where
  "sample_store objs =
     \<lparr>objects = objs, get_fails = (\<lambda>k. False), put_fails = (\<lambda>k. False), calls = []\<rparr>"

text \<open>A store on which every write fails.\<close>

definition sample_read_only_store :: "(obj_key \<Rightarrow> blob option) \<Rightarrow> object_store" where
  "sample_read_only_store objs =
     \<lparr>objects = objs, get_fails = (\<lambda>k. False), put_fails = (\<lambda>k. True), calls = []\<rparr>"

section \<open>The calls a request makes on the object store\<close>

lemma obj_get_calls: "calls (snd (obj_get s k)) = calls s @ [StoreGet k]"
  by (simp add: obj_get_def Let_def split: option.splits)

lemma obj_put_callsD: "obj_put s k b = (x, s') \<Longrightarrow> calls s' = calls s @ [StorePut k b]"
  by (auto simp: obj_put_def Let_def split: if_splits)

lemma load_document_calls: "calls (snd (load_document s k)) = calls s @ [StoreGet k]"
  using obj_get_calls [of s k]
  by (auto simp: load_document_def split: prod.splits sum.splits)

lemma get_image_content_data_calls:
  "calls (snd (get_image_content_data e v self d s)) =
     calls s @ [StoreGet (account_id self,
                  if v = Manifest then ''manifest_data'' else ''image_content_data'', d)]"
  using load_document_calls [of s "(account_id self, ''manifest_data'', d)"]
    load_document_calls [of s "(account_id self, ''image_content_data'', d)"]
  by (auto simp: get_image_content_data_def split: prod.splits sum.splits)

lemma migrate_details_calls:
  "migrate_details e self r ds doc s = (err, doc', s') \<Longrightarrow> \<exists>rest. calls s' = calls s @ rest"
proof (induction ds)
  case Nil
  then show ?case by simp
next
  case (Cons d ds)
  then show ?case
    by (auto split: option.splits sum.splits prod.splits if_splits simp: Let_def
        dest: obj_put_callsD)
qed

lemma hydrate_calls:
  "\<exists>rest. calls (snd (hydrate_additional_data e v self d r s)) = calls s @ rest"
  by (auto simp: hydrate_additional_data_def hydrate_dockerfile_def
      split: variant.splits json.splits prod.splits dest: migrate_details_calls)

section \<open>A missing record\<close>

text \<open>
  C5, as amended. When the record lookup finds nothing, \<open>get\<close> of every class fails
  with \<open>ResourceNotFound\<close> "Image not found", whose detail holds the account, the
  \<open>content_type\<close> attribute of the getter and the digest; the object store is left as it
  was, with no call added: no content document is fetched. The attribute is the single
  content type of the request, and \<open>None\<close> for the multi-type getter, whose requested
  types are not part of the detail.
\<close>

theorem get_missing_record:
  assumes "db_catalog_image_get e (image_digest self) (account_id self) = None"
  shows "get e v self allow s =
           (Inl (ResourceNotFound ''Image not found''
                   \<lparr>detail_account_id = account_id self,
                    detail_content_type = content_type self,
                    detail_image_digest = image_digest self\<rparr>), s)"
  using assms by (simp add: get_def get_error_detail_def)

theorem get_missing_record_witness:
  "get (sample_env (\<lambda>d a. None)) Dockerfile
     (ImageContentGetter_init ''admin'' ''dockerfile'' ''sha256:aa'') False
     (sample_store Map.empty) =
   (Inl (ResourceNotFound ''Image not found''
           \<lparr>detail_account_id = ''admin'', detail_content_type = Some ''dockerfile'',
            detail_image_digest = ''sha256:aa''\<rparr>), sample_store Map.empty)"
  using get_missing_record [of "sample_env (\<lambda>d a. None)"
      "ImageContentGetter_init ''admin'' ''dockerfile'' ''sha256:aa''" Dockerfile False
      "sample_store Map.empty"]
  by (simp add: sample_env_def ImageContentGetter_init_def)

text \<open>
  C5 as stated fails for the multi-type getter: its constructor sets \<open>content_type\<close> to
  \<open>None\<close> and keeps the requested types in \<open>content_types\<close>, which \<open>get_error_detail\<close>
  does not read. The request below is for \<open>os\<close>; the detail of the error holds the
  account and the digest, and \<open>None\<close> for the content type.
\<close>

theorem multi_get_missing_record_detail:
  "content_types (MultipleContentTypesGetter_init ''admin'' [''os''] ''sha256:aa'') = Some [''os''] \<and>
   get (sample_env (\<lambda>d a. None)) Multi
     (MultipleContentTypesGetter_init ''admin'' [''os''] ''sha256:aa'') False
     (sample_store Map.empty) =
   (Inl (ResourceNotFound ''Image not found''
           \<lparr>detail_account_id = ''admin'', detail_content_type = None,
            detail_image_digest = ''sha256:aa''\<rparr>), sample_store Map.empty)"
proof -
  let ?g = "MultipleContentTypesGetter_init ''admin'' [''os''] ''sha256:aa''"
  have self: "account_id ?g = ''admin''" "image_digest ?g = ''sha256:aa''"
    "content_type ?g = None"
    by (simp_all add: MultipleContentTypesGetter_init_def)
  have c: "content_types ?g = Some [''os'']"
    by (simp add: MultipleContentTypesGetter_init_def lower_def lower_char_def)
  have db: "db_catalog_image_get (sample_env (\<lambda>d a. None)) (image_digest ?g) (account_id ?g) = None"
    by (simp add: sample_env_def)
  have g: "get (sample_env (\<lambda>d a. None)) Multi ?g False (sample_store Map.empty) =
     (Inl (ResourceNotFound ''Image not found''
           \<lparr>detail_account_id = ''admin'', detail_content_type = None,
            detail_image_digest = ''sha256:aa''\<rparr>), sample_store Map.empty)"
    using db by (simp add: get_def get_error_detail_def self)
  show ?thesis using c g by (rule conjI)
qed

section \<open>The state check\<close>

text \<open>
  C2, as amended. For an existing record, the state check passes exactly when the
  analysis status is the complete state, or, with \<open>allow_analyzing_state\<close>, the working
  state. With any other status \<open>get\<close> of every class fails with \<open>ResourceNotFound\<close>
  (the not-found class), the status in the message and the account, the \<open>content_type\<close>
  attribute of the getter and the digest in the detail, and the store untouched; with an
  allowed status \<open>get\<close> goes on to the fetch of the content document. The attribute is
  the single content type of the request, and \<open>None\<close> for the multi-type getter, whose
  requested types are not part of the detail.
\<close>

theorem get_state_check:
  assumes "db_catalog_image_get e (image_digest self) (account_id self) = Some report"
  shows "(verify_analysis_status e self report allow = Inr () \<longleftrightarrow>
            analysis_status report = complete_state_analyze e \<or>
            allow \<and> analysis_status report = working_state_analyze e) \<and>
         (analysis_status report \<noteq> complete_state_analyze e \<and>
          (allow \<longrightarrow> analysis_status report \<noteq> working_state_analyze e) \<longrightarrow>
            get e v self allow s =
              (Inl (ResourceNotFound
                      (''image is not analyzed - analysis_status: '' @ analysis_status report)
                      \<lparr>detail_account_id = account_id self,
                       detail_content_type = content_type self,
                       detail_image_digest = image_digest self\<rparr>), s)) \<and>
         (analysis_status report = complete_state_analyze e \<or>
          allow \<and> analysis_status report = working_state_analyze e \<longrightarrow>
            (\<exists>rest. calls (snd (get e v self allow s)) =
               calls s @ StoreGet (account_id self,
                            if v = Manifest then ''manifest_data'' else ''image_content_data'',
                            image_digest self) # rest))"
proof (intro conjI impI)
  show "verify_analysis_status e self report allow = Inr () \<longleftrightarrow>
          analysis_status report = complete_state_analyze e \<or>
          allow \<and> analysis_status report = working_state_analyze e"
    by (auto simp: verify_analysis_status_def)
next
  assume "analysis_status report \<noteq> complete_state_analyze e \<and>
          (allow \<longrightarrow> analysis_status report \<noteq> working_state_analyze e)"
  then show "get e v self allow s =
              (Inl (ResourceNotFound
                      (''image is not analyzed - analysis_status: '' @ analysis_status report)
                      \<lparr>detail_account_id = account_id self,
                       detail_content_type = content_type self,
                       detail_image_digest = image_digest self\<rparr>), s)"
    using assms by (auto simp: get_def verify_analysis_status_def get_error_detail_def)
next
  assume ok: "analysis_status report = complete_state_analyze e \<or>
          allow \<and> analysis_status report = working_state_analyze e"
  let ?k = "(account_id self, if v = Manifest then ''manifest_data'' else ''image_content_data'',
              image_digest self)"
  have v: "verify_analysis_status e self report allow = Inr ()"
    using ok by (auto simp: verify_analysis_status_def)
  obtain r s1 where f: "get_image_content_data e v self (image_digest self) s = (r, s1)"
    by (cases "get_image_content_data e v self (image_digest self) s") auto
  have c1: "calls s1 = calls s @ [StoreGet ?k]"
    using get_image_content_data_calls [of e v self "image_digest self" s] f by simp
  have "\<exists>rest. calls (snd (get e v self allow s)) = calls s1 @ rest"
    using assms v f hydrate_calls [of e v self _ report s1]
    by (auto simp: get_def split: sum.splits bool.splits)
  then show "\<exists>rest. calls (snd (get e v self allow s)) = calls s @ StoreGet ?k # rest"
    using c1 by auto
qed

theorem get_state_check_witness:
  "db_catalog_image_get (sample_env (sample_db (sample_report ''sha256:aa'' ''analyzing'' None [])))
     ''sha256:aa'' ''admin'' = Some (sample_report ''sha256:aa'' ''analyzing'' None []) \<and>
   get (sample_env (sample_db (sample_report ''sha256:aa'' ''analyzing'' None []))) Base
     (ImageContentGetter_init ''admin'' ''os'' ''sha256:aa'') False (sample_store Map.empty) =
     (Inl (ResourceNotFound ''image is not analyzed - analysis_status: analyzing''
             \<lparr>detail_account_id = ''admin'', detail_content_type = Some ''os'',
              detail_image_digest = ''sha256:aa''\<rparr>), sample_store Map.empty) \<and>
   verify_analysis_status (sample_env (sample_db (sample_report ''sha256:aa'' ''analyzing'' None [])))
     (ImageContentGetter_init ''admin'' ''os'' ''sha256:aa'')
     (sample_report ''sha256:aa'' ''analyzing'' None []) True = Inr ()"
  using get_state_check [of "sample_env (sample_db (sample_report ''sha256:aa'' ''analyzing'' None []))"
      "ImageContentGetter_init ''admin'' ''os'' ''sha256:aa''"
      "sample_report ''sha256:aa'' ''analyzing'' None []" False Base "sample_store Map.empty"]
    get_state_check [of "sample_env (sample_db (sample_report ''sha256:aa'' ''analyzing'' None []))"
      "ImageContentGetter_init ''admin'' ''os'' ''sha256:aa''"
      "sample_report ''sha256:aa'' ''analyzing'' None []" True Base "sample_store Map.empty"]
  by (simp add: sample_env_def sample_db_def sample_report_def ImageContentGetter_init_def)

text \<open>
  C2 as stated fails for the multi-type getter, for the same reason: the image below is
  still in the working state, the request is for \<open>os\<close>, and the detail of the error
  holds \<open>None\<close> for the content type.
\<close>

theorem multi_get_state_check_detail:
  "content_types (MultipleContentTypesGetter_init ''admin'' [''os''] ''sha256:aa'') = Some [''os''] \<and>
   get (sample_env (sample_db (sample_report ''sha256:aa'' ''analyzing'' None []))) Multi
     (MultipleContentTypesGetter_init ''admin'' [''os''] ''sha256:aa'') False
     (sample_store Map.empty) =
   (Inl (ResourceNotFound ''image is not analyzed - analysis_status: analyzing''
           \<lparr>detail_account_id = ''admin'', detail_content_type = None,
            detail_image_digest = ''sha256:aa''\<rparr>), sample_store Map.empty)"
proof -
  let ?g = "MultipleContentTypesGetter_init ''admin'' [''os''] ''sha256:aa''"
  let ?r = "sample_report ''sha256:aa'' ''analyzing'' None []"
  let ?e = "sample_env (sample_db ?r)"
  let ?d = "\<lparr>detail_account_id = ''admin'', detail_content_type = None,
            detail_image_digest = ''sha256:aa''\<rparr>"
  have self: "account_id ?g = ''admin''" "image_digest ?g = ''sha256:aa''"
    "content_type ?g = None"
    by (simp_all add: MultipleContentTypesGetter_init_def)
  have c: "content_types ?g = Some [''os'']"
    by (simp add: MultipleContentTypesGetter_init_def lower_def lower_char_def)
  have db: "db_catalog_image_get ?e (image_digest ?g) (account_id ?g) = Some ?r"
    unfolding self by (simp add: sample_env_def sample_db_def sample_report_def)
  have d: "get_error_detail ?g = ?d"
    by (simp add: get_error_detail_def self)
  have st: "verify_analysis_status ?e ?g ?r False =
      Inl (ResourceNotFound ''image is not analyzed - analysis_status: analyzing'' ?d)"
    unfolding verify_analysis_status_def d
    by (simp add: sample_env_def sample_report_def)
  have g: "get ?e Multi ?g False (sample_store Map.empty) =
     (Inl (ResourceNotFound ''image is not analyzed - analysis_status: analyzing'' ?d),
      sample_store Map.empty)"
    using db st by (simp add: get_def)
  show ?thesis using c g by (rule conjI)
qed

section \<open>The manifest getter\<close>

lemma load_document_Inr:
  "fst (load_document s k) = Inr d \<longleftrightarrow>
     \<not> get_fails s k \<and>
     (\<exists>kvs. objects s k = Some (JsonText (JObj kvs)) \<and> map_of kvs ''document'' = Some d)"
proof (cases "get_fails s k")
  case True
  then show ?thesis by (simp add: load_document_def obj_get_def Let_def)
next
  case False
  show ?thesis
  proof (cases "objects s k")
    case None
    with False show ?thesis by (simp add: load_document_def obj_get_def Let_def)
  next
    case (Some b)
    show ?thesis
    proof (cases b)
      case NotJson
      with False Some show ?thesis
        by (simp add: load_document_def obj_get_def Let_def json_loads_def)
    next
      case (JsonText j)
      with False Some show ?thesis
        by (cases j) (auto simp: load_document_def obj_get_def Let_def json_loads_def
            split: option.splits)
    qed
  qed
qed

lemma load_document_objects: "objects (snd (load_document s k)) = objects s"
  by (auto simp: load_document_def obj_get_def Let_def split: option.splits sum.splits)

text \<open>
  C8. Once the record is found and the state check passed, \<open>get\<close> of the manifest
  getter makes exactly one call on the object store: a read of the category
  \<open>manifest_data\<close> under the digest of the request (never the category
  \<open>image_content_data\<close>), and it writes nothing. The presence check and the formatter
  see the document wrapped under the key \<open>manifest\<close>: \<open>get\<close> returns a result only when
  the requested type is \<open>manifest\<close>, and the result is then the formatter's for the
  stored document; conversely, with that type and a readable envelope, \<open>get\<close> returns
  what the formatter returns.
\<close>

theorem manifest_get:
  assumes "db_catalog_image_get e (image_digest self) (account_id self) = Some report"
    and "verify_analysis_status e self report allow = Inr ()"
  shows "calls (snd (get e Manifest self allow s)) =
           calls s @ [StoreGet (account_id self, ''manifest_data'', image_digest self)] \<and>
         objects (snd (get e Manifest self allow s)) = objects s \<and>
         (\<forall>r. fst (get e Manifest self allow s) = Inr r \<longrightarrow>
            content_type self = Some ''manifest'' \<and>
            \<not> get_fails s (account_id self, ''manifest_data'', image_digest self) \<and>
            (\<exists>envelope payload.
               objects s (account_id self, ''manifest_data'', image_digest self) =
                 Some (JsonText (JObj envelope)) \<and>
               map_of envelope ''document'' = Some payload \<and>
               make_image_content_response e (Some ''manifest'') payload = Inr r)) \<and>
         (\<forall>envelope payload.
            content_type self = Some ''manifest'' \<and>
            \<not> get_fails s (account_id self, ''manifest_data'', image_digest self) \<and>
            objects s (account_id self, ''manifest_data'', image_digest self) =
              Some (JsonText (JObj envelope)) \<and>
            map_of envelope ''document'' = Some payload \<longrightarrow>
            fst (get e Manifest self allow s) =
              make_image_content_response e (Some ''manifest'') payload)"
proof -
  let ?k = "(account_id self, ''manifest_data'', image_digest self)"
  obtain x s1 where ld: "load_document s ?k = (x, s1)"
    by (cases "load_document s ?k") auto
  have c: "calls s1 = calls s @ [StoreGet ?k]"
    using load_document_calls [of s ?k] ld by simp
  have o: "objects s1 = objects s"
    using load_document_objects [of s ?k] ld by simp
  have ok: "x = Inr d \<longleftrightarrow>
      \<not> get_fails s ?k \<and>
      (\<exists>kvs. objects s ?k = Some (JsonText (JObj kvs)) \<and> map_of kvs ''document'' = Some d)" for d
    using load_document_Inr [of s ?k d] ld by simp
  show ?thesis
  proof (cases x)
    case (Inl err)
    have g: "get e Manifest self allow s =
        (Inl (make_anchore_exception e err
                (''cannot fetch content data '' @ py_str (content_type self) @ '' from archive'')
                500), s1)"
      using assms ld Inl by (simp add: get_def get_image_content_data_def)
    show ?thesis using g c o ok Inl by auto
  next
    case (Inr d)
    have f: "get_image_content_data e Manifest self (image_digest self) s =
        (Inr (JObj [(''manifest'', d)]), s1)"
      using ld Inr by (simp add: get_image_content_data_def)
    have d: "\<not> get_fails s ?k \<and>
      (\<exists>kvs. objects s ?k = Some (JsonText (JObj kvs)) \<and> map_of kvs ''document'' = Some d)"
      using ok [of d] Inr by simp
    show ?thesis
    proof (cases "content_type self = Some ''manifest''")
      case True
      have g: "get e Manifest self allow s =
          (make_image_content_response e (Some ''manifest'') d, s1)"
        using assms f True
        by (simp add: get_def verify_content_type_def normalize_to_user_format_on_load_def
            make_response_def hydrate_additional_data_def split: sum.splits)
      show ?thesis using g c o d True by auto
    next
      case False
      have "\<exists>err. get e Manifest self allow s = (Inl err, s1)"
        using assms f False
        by (cases "content_type self")
          (auto simp: get_def verify_content_type_def split: sum.splits)
      then show ?thesis using c o False by auto
    qed
  qed
qed

theorem manifest_get_witness:
  "db_catalog_image_get (sample_env (sample_db (sample_report ''sha256:aa'' ''analyzed'' None [])))
     ''sha256:aa'' ''admin'' = Some (sample_report ''sha256:aa'' ''analyzed'' None []) \<and>
   verify_analysis_status (sample_env (sample_db (sample_report ''sha256:aa'' ''analyzed'' None [])))
     (ImageContentGetter_init ''admin'' ''manifest'' ''sha256:aa'')
     (sample_report ''sha256:aa'' ''analyzed'' None []) False = Inr () \<and>
   fst (get (sample_env (sample_db (sample_report ''sha256:aa'' ''analyzed'' None []))) Manifest
     (ImageContentGetter_init ''admin'' ''manifest'' ''sha256:aa'') False
     (sample_store [(''admin'', ''manifest_data'', ''sha256:aa'') \<mapsto>
                      JsonText (JObj [(''document'', JStr ''schemaVersion 2'')])])) =
     Inr (JArr [JStr ''schemaVersion 2'']) \<and>
   calls (snd (get (sample_env (sample_db (sample_report ''sha256:aa'' ''analyzed'' None []))) Manifest
     (ImageContentGetter_init ''admin'' ''manifest'' ''sha256:aa'') False
     (sample_store [(''admin'', ''manifest_data'', ''sha256:aa'') \<mapsto>
                      JsonText (JObj [(''document'', JStr ''schemaVersion 2'')])]))) =
     [StoreGet (''admin'', ''manifest_data'', ''sha256:aa'')]"
proof -
  let ?e = "sample_env (sample_db (sample_report ''sha256:aa'' ''analyzed'' None []))"
  let ?g = "ImageContentGetter_init ''admin'' ''manifest'' ''sha256:aa''"
  let ?r = "sample_report ''sha256:aa'' ''analyzed'' None []"
  let ?s = "sample_store [(''admin'', ''manifest_data'', ''sha256:aa'') \<mapsto>
                      JsonText (JObj [(''document'', JStr ''schemaVersion 2'')])]"
  have db: "db_catalog_image_get ?e (image_digest ?g) (account_id ?g) = Some ?r"
    by (simp add: sample_env_def sample_db_def sample_report_def ImageContentGetter_init_def)
  have st: "verify_analysis_status ?e ?g ?r False = Inr ()"
    by (simp add: verify_analysis_status_def sample_env_def sample_report_def)
  have acc: "account_id ?g = ''admin''" "image_digest ?g = ''sha256:aa''"
    "content_type ?g = Some ''manifest''"
    by (simp_all add: ImageContentGetter_init_def)
  have fmt: "make_image_content_response ?e (Some ''manifest'') (JStr ''schemaVersion 2'') =
      Inr (JArr [JStr ''schemaVersion 2''])"
    by (simp add: sample_env_def sample_formatter_def)
  have sto: "calls ?s = []" "\<not> get_fails ?s (''admin'', ''manifest_data'', ''sha256:aa'')"
    "objects ?s (''admin'', ''manifest_data'', ''sha256:aa'') =
       Some (JsonText (JObj [(''document'', JStr ''schemaVersion 2'')]))"
    by (simp_all add: sample_store_def)
  note m = manifest_get [OF db st, of ?s]
  have k: "(account_id ?g, ''manifest_data'', image_digest ?g) =
      (''admin'', ''manifest_data'', ''sha256:aa'')"
    using acc by simp
  note m4 = m [THEN conjunct2, THEN conjunct2, THEN conjunct2, rule_format,
      of "[(''document'', JStr ''schemaVersion 2'')]" "JStr ''schemaVersion 2''"]
  have r: "fst (get ?e Manifest ?g False ?s) =
      make_image_content_response ?e (Some ''manifest'') (JStr ''schemaVersion 2'')"
    using acc(3) sto(2,3) by (intro m4) (simp add: k)
  have c: "calls (snd (get ?e Manifest ?g False ?s)) =
      [StoreGet (''admin'', ''manifest_data'', ''sha256:aa'')]"
    using m [THEN conjunct1] sto(1) unfolding k by simp
  show ?thesis
    using db st r c fmt unfolding acc by simp
qed

section \<open>The multi-type getter\<close>

lemma dict_set_keys: "fst ` set (dict_set kvs k v) = insert k (fst ` set kvs)"
proof (induction kvs)
  case Nil
  show ?case by simp
next
  case (Cons a kvs)
  then show ?case by (cases a) (simp add: insert_commute)
qed

lemma map_of_dict_set:
  "map_of (dict_set kvs k v) x = (if x = k then Some v else map_of kvs x)"
  by (induction kvs) auto

lemma is_content_type_match_requested:
  assumes "content_types self = Some requested"
  shows "is_content_type_match e self k =
           Inr (k \<noteq> [] \<and> k \<in> set (image_content_types e) \<and>
                (''all'' \<in> set requested \<or> lower k \<in> set requested))"
  using assms by (simp add: is_content_type_match_def)



lemma gather_result:
  assumes m: "\<And>k. is_content_type_match e self k = Inr (M k)"
    and "\<And>k p. (k, p) \<in> set items \<Longrightarrow> M k \<Longrightarrow>
           \<exists>r. make_image_content_response e (Some k) p = Inr r"
    and "distinct (map fst items)"
  shows "\<exists>res. gather e self items acc = Inr res \<and>
           fst ` set res = fst ` set acc \<union> {k \<in> fst ` set items. M k} \<and>
           (\<forall>k p r. (k, p) \<in> set items \<and> M k \<and>
                make_image_content_response e (Some k) p = Inr r \<longrightarrow> map_of res k = Some r) \<and>
           (\<forall>k. k \<notin> fst ` set items \<longrightarrow> map_of res k = map_of acc k)"
  using assms(2,3)
proof (induction items arbitrary: acc)
  case Nil
  then show ?case by simp
next
  case (Cons item items)
  obtain c p where item: "item = (c, p)" by (cases item)
  have fm: "\<And>k p. (k, p) \<in> set items \<Longrightarrow> M k \<Longrightarrow>
      \<exists>r. make_image_content_response e (Some k) p = Inr r"
    using Cons.prems(1) by simp
  have di: "distinct (map fst items)" and cn: "c \<notin> fst ` set items"
    using Cons.prems(2) item by auto
  show ?case
  proof (cases "M c")
    case False
    have g: "gather e self (item # items) acc = gather e self items acc"
      using m [of c] False item by simp
    from Cons.IH [OF fm di, of acc] obtain res where
      r1: "gather e self items acc = Inr res" and
      r2: "fst ` set res = fst ` set acc \<union> {k \<in> fst ` set items. M k}" and
      r3: "\<forall>k p r. (k, p) \<in> set items \<and> M k \<and>
          make_image_content_response e (Some k) p = Inr r \<longrightarrow> map_of res k = Some r" and
      r4: "\<forall>k. k \<notin> fst ` set items \<longrightarrow> map_of res k = map_of acc k"
      by blast
    have k: "fst ` set res = fst ` set acc \<union> {k \<in> fst ` set (item # items). M k}"
      unfolding r2 using False item by auto
    have v: "\<forall>k p r. (k, p) \<in> set (item # items) \<and> M k \<and>
          make_image_content_response e (Some k) p = Inr r \<longrightarrow> map_of res k = Some r"
      using r3 False item by auto
    have o: "\<forall>k. k \<notin> fst ` set (item # items) \<longrightarrow> map_of res k = map_of acc k"
      using r4 by simp
    show ?thesis
      unfolding g using r1 k v o by blast
  next
    case True
    obtain r0 where r0: "make_image_content_response e (Some c) p = Inr r0"
      using Cons.prems(1) [of c p] True item by auto
    have g: "gather e self (item # items) acc = gather e self items (dict_set acc c r0)"
      using m [of c] True item r0 by simp
    from Cons.IH [OF fm di, of "dict_set acc c r0"] obtain res where
      r1: "gather e self items (dict_set acc c r0) = Inr res" and
      r2: "fst ` set res = fst ` set (dict_set acc c r0) \<union> {k \<in> fst ` set items. M k}" and
      r3: "\<forall>k p r. (k, p) \<in> set items \<and> M k \<and>
          make_image_content_response e (Some k) p = Inr r \<longrightarrow> map_of res k = Some r" and
      r4: "\<forall>k. k \<notin> fst ` set items \<longrightarrow> map_of res k = map_of (dict_set acc c r0) k"
      by blast
    have k: "fst ` set res = fst ` set acc \<union> {k \<in> fst ` set (item # items). M k}"
      unfolding r2 dict_set_keys using True item by auto
    have v: "\<forall>k p r. (k, p) \<in> set (item # items) \<and> M k \<and>
          make_image_content_response e (Some k) p = Inr r \<longrightarrow> map_of res k = Some r"
    proof (intro allI impI)
      fix k q r
      assume a: "(k, q) \<in> set (item # items) \<and> M k \<and>
          make_image_content_response e (Some k) q = Inr r"
      show "map_of res k = Some r"
      proof (cases "(k, q) = (c, p)")
        case True
        then have "map_of res k = map_of (dict_set acc c r0) c"
          using r4 cn by simp
        then show ?thesis using True a r0 by (simp add: map_of_dict_set)
      next
        case False
        then have "(k, q) \<in> set items" using a item by auto
        then show ?thesis using r3 a by blast
      qed
    qed
    have o: "\<forall>k. k \<notin> fst ` set (item # items) \<longrightarrow> map_of res k = map_of acc k"
      using r4 item by (simp add: map_of_dict_set)
    show ?thesis
      unfolding g using r1 k v o by blast
  qed
qed

lemma load_document_ok:
  assumes "\<not> get_fails s k" and "objects s k = Some (JsonText (JObj envelope))"
    and "map_of envelope ''document'' = Some d"
  shows "load_document s k = (Inr d, s\<lparr>calls := calls s @ [StoreGet k]\<rparr>)"
  using assms by (simp add: load_document_def obj_get_def Let_def json_loads_def)

lemma get_image_content_data_ok:
  assumes "v \<noteq> Manifest"
    and "\<not> get_fails s (account_id self, ''image_content_data'', digest)"
    and "objects s (account_id self, ''image_content_data'', digest) =
           Some (JsonText (JObj envelope))"
    and "map_of envelope ''document'' = Some d"
  shows "get_image_content_data e v self digest s =
           (Inr d, s\<lparr>calls := calls s @
              [StoreGet (account_id self, ''image_content_data'', digest)]\<rparr>)"
  using assms(1) load_document_ok [OF assms(2,3,4)]
  by (simp add: get_image_content_data_def)

text \<open>
  C7. With a fetched document that is a non-empty object and a non-empty list of requested
  types, \<open>get\<close> of the multi-type getter returns a mapping whose keys are exactly the
  keys of the document that are in the registry and for which either \<open>all\<close> is among
  the lower-cased requested types or the lower-cased key is; each such key maps to the
  formatter's result for its payload. The requested types are lower-cased by the
  constructor, so a request \<open>OS\<close> matches the key \<open>os\<close>. The registry holds no empty
  name, the keys of the document are distinct, and the formatter returns for the entries
  that are included.
\<close>

theorem multi_get_inclusion:
  assumes db: "db_catalog_image_get e digest account = Some report"
    and st: "verify_analysis_status e (MultipleContentTypesGetter_init account ctypes digest)
               report allow = Inr ()"
    and nofail: "\<not> get_fails s (account, ''image_content_data'', digest)"
    and obj: "objects s (account, ''image_content_data'', digest) =
                Some (JsonText (JObj envelope))"
    and doc: "map_of envelope ''document'' = Some (JObj doc)"
    and nonempty: "doc \<noteq> []" "ctypes \<noteq> []"
    and keys: "distinct (map fst doc)"
    and registry: "[] \<notin> set (image_content_types e)"
    and fmt: "\<And>k p. (k, p) \<in> set doc \<Longrightarrow> k \<in> set (image_content_types e) \<Longrightarrow>
                ''all'' \<in> set (map lower ctypes) \<or> lower k \<in> set (map lower ctypes) \<Longrightarrow>
                \<exists>r. make_image_content_response e (Some k) p = Inr r"
  shows "\<exists>res. fst (get e Multi (MultipleContentTypesGetter_init account ctypes digest) allow s) =
                  Inr (JObj res) \<and>
           (\<forall>k. k \<in> fst ` set res \<longleftrightarrow>
                  k \<in> fst ` set doc \<and> k \<in> set (image_content_types e) \<and>
                  (''all'' \<in> set (map lower ctypes) \<or> lower k \<in> set (map lower ctypes))) \<and>
           (\<forall>k p r. (k, p) \<in> set doc \<and> k \<in> fst ` set res \<and>
                  make_image_content_response e (Some k) p = Inr r \<longrightarrow> map_of res k = Some r)"
proof -
  let ?self = "MultipleContentTypesGetter_init account ctypes digest"
  define M where "M = (\<lambda>k. k \<noteq> [] \<and> k \<in> set (image_content_types e) \<and>
              (''all'' \<in> set (map lower ctypes) \<or> lower k \<in> set (map lower ctypes)))"
  have self: "account_id ?self = account" "image_digest ?self = digest"
    "content_types ?self = Some (map lower ctypes)"
    using nonempty(2) by (simp_all add: MultipleContentTypesGetter_init_def)
  have m: "\<And>k. is_content_type_match e ?self k = Inr (M k)"
    unfolding M_def using is_content_type_match_requested [OF self(3)] .
  have f: "\<And>k p. (k, p) \<in> set doc \<Longrightarrow> M k \<Longrightarrow>
      \<exists>r. make_image_content_response e (Some k) p = Inr r"
    unfolding M_def using fmt by simp
  have "\<exists>res. gather e ?self doc [] = Inr res \<and>
           fst ` set res = fst ` set ([] :: (string \<times> json) list) \<union> {k \<in> fst ` set doc. M k} \<and>
           (\<forall>k p r. (k, p) \<in> set doc \<and> M k \<and>
                make_image_content_response e (Some k) p = Inr r \<longrightarrow> map_of res k = Some r) \<and>
           (\<forall>k. k \<notin> fst ` set doc \<longrightarrow> map_of res k = map_of ([] :: (string \<times> json) list) k)"
  proof (rule gather_result)
    show "\<And>k. is_content_type_match e ?self k = Inr (M k)" by (rule m)
    show "\<And>k p. (k, p) \<in> set doc \<Longrightarrow> M k \<Longrightarrow>
        \<exists>r. make_image_content_response e (Some k) p = Inr r" by (rule f)
    show "distinct (map fst doc)" by (rule keys)
  qed
  then obtain res where
    r1: "gather e ?self doc [] = Inr res" and
    r2: "fst ` set res = fst ` set ([] :: (string \<times> json) list) \<union> {k \<in> fst ` set doc. M k}" and
    r3: "\<forall>k p r. (k, p) \<in> set doc \<and> M k \<and>
          make_image_content_response e (Some k) p = Inr r \<longrightarrow> map_of res k = Some r"
    by blast
  have fetch: "get_image_content_data e Multi ?self digest s =
      (Inr (JObj doc), s\<lparr>calls := calls s @ [StoreGet (account, ''image_content_data'', digest)]\<rparr>)"
    using get_image_content_data_ok [of Multi s ?self digest envelope "JObj doc" e]
      nofail obj doc unfolding self by simp
  have h: "hydrate_multi e ?self (JObj doc) = Inr (JObj res)"
    using nonempty r1 by (simp add: hydrate_multi_def self)
  have g: "fst (get e Multi ?self allow s) = Inr (JObj res)"
    using db st fetch h
    by (simp add: get_def self verify_content_type_def normalize_to_user_format_on_load_def
        hydrate_additional_data_def)
  have mem: "\<And>k. k \<in> fst ` set res \<longleftrightarrow> k \<in> fst ` set doc \<and> M k"
    unfolding r2 by simp
  have M': "\<And>k. M k \<longleftrightarrow> k \<in> set (image_content_types e) \<and>
      (''all'' \<in> set (map lower ctypes) \<or> lower k \<in> set (map lower ctypes))"
    unfolding M_def using registry by metis
  have k: "\<forall>k. k \<in> fst ` set res \<longleftrightarrow>
      k \<in> fst ` set doc \<and> k \<in> set (image_content_types e) \<and>
      (''all'' \<in> set (map lower ctypes) \<or> lower k \<in> set (map lower ctypes))"
    unfolding mem M' by simp
  have v: "\<forall>k p r. (k, p) \<in> set doc \<and> k \<in> fst ` set res \<and>
      make_image_content_response e (Some k) p = Inr r \<longrightarrow> map_of res k = Some r"
    using r3 unfolding mem by blast
  show ?thesis
    by (rule exI [of _ res]) (intro conjI g k v)
qed

theorem multi_get_inclusion_witness:
  "\<exists>res. fst (get (sample_env (sample_db (sample_report ''sha256:aa'' ''analyzed'' None []))) Multi
             (MultipleContentTypesGetter_init ''admin'' [''OS''] ''sha256:aa'') False
             (sample_store [(''admin'', ''image_content_data'', ''sha256:aa'') \<mapsto>
                JsonText (JObj [(''document'',
                  JObj [(''os'', JObj [(''musl'', JStr ''1.2.3'')]),
                        (''java'', JObj [(''guava'', JStr ''31.0'')]),
                        (''unsupported'', JObj [(''x'', JNull)])])])])) = Inr (JObj res) \<and>
          ''os'' \<in> fst ` set res \<and> ''java'' \<notin> fst ` set res \<and>
          ''unsupported'' \<notin> fst ` set res \<and>
          map_of res ''os'' = Some (JArr [JObj [(''musl'', JStr ''1.2.3'')]])"
proof -
  let ?r = "sample_report ''sha256:aa'' ''analyzed'' None []"
  let ?e = "sample_env (sample_db ?r)"
  let ?doc = "[(''os'', JObj [(''musl'', JStr ''1.2.3'')]),
               (''java'', JObj [(''guava'', JStr ''31.0'')]),
               (''unsupported'', JObj [(''x'', JNull)])]"
  let ?env = "[(''document'', JObj ?doc)]"
  let ?s = "sample_store [(''admin'', ''image_content_data'', ''sha256:aa'') \<mapsto>
                JsonText (JObj ?env)]"
  have low: "map lower [''OS''] = [''os'']" "lower ''os'' = ''os''" "lower ''java'' = ''java''"
    "lower ''unsupported'' = ''unsupported''"
    by (simp_all add: lower_def lower_char_def)
  have reg: "image_content_types ?e = [''os'', ''java'', ''python'']"
    by (simp add: sample_env_def)
  have db: "db_catalog_image_get ?e ''sha256:aa'' ''admin'' = Some ?r"
    by (simp add: sample_env_def sample_db_def sample_report_def)
  have st: "verify_analysis_status ?e (MultipleContentTypesGetter_init ''admin'' [''OS''] ''sha256:aa'')
      ?r False = Inr ()"
    by (simp add: verify_analysis_status_def sample_env_def sample_report_def)
  have nofail: "\<not> get_fails ?s (''admin'', ''image_content_data'', ''sha256:aa'')"
    by (simp add: sample_store_def)
  have obj: "objects ?s (''admin'', ''image_content_data'', ''sha256:aa'') =
      Some (JsonText (JObj ?env))"
    by (simp add: sample_store_def)
  have doc: "map_of ?env ''document'' = Some (JObj ?doc)" by simp
  have ne: "?doc \<noteq> []" "[''OS''] \<noteq> ([] :: string list)" by simp_all
  have keys: "distinct (map fst ?doc)" by simp
  have registry: "[] \<notin> set (image_content_types ?e)" unfolding reg by simp
  have fmt0: "\<exists>r. make_image_content_response ?e (Some k) p = Inr r" for k p
    by (simp add: sample_env_def sample_formatter_def)
  have fmt: "\<And>k p. (k, p) \<in> set ?doc \<Longrightarrow> k \<in> set (image_content_types ?e) \<Longrightarrow>
                ''all'' \<in> set (map lower [''OS'']) \<or> lower k \<in> set (map lower [''OS'']) \<Longrightarrow>
                \<exists>r. make_image_content_response ?e (Some k) p = Inr r"
    by (rule fmt0)
  have os: "make_image_content_response ?e (Some ''os'') (JObj [(''musl'', JStr ''1.2.3'')]) =
      Inr (JArr [JObj [(''musl'', JStr ''1.2.3'')]])"
    by (simp add: sample_env_def sample_formatter_def)
  from multi_get_inclusion [OF db st nofail obj doc ne keys registry fmt]
  obtain res where all:
    "fst (get ?e Multi (MultipleContentTypesGetter_init ''admin'' [''OS''] ''sha256:aa'') False ?s) =
          Inr (JObj res) \<and>
     (\<forall>k. k \<in> fst ` set res \<longleftrightarrow>
          k \<in> fst ` set ?doc \<and> k \<in> set (image_content_types ?e) \<and>
          (''all'' \<in> set (map lower [''OS'']) \<or> lower k \<in> set (map lower [''OS'']))) \<and>
     (\<forall>k p r. (k, p) \<in> set ?doc \<and> k \<in> fst ` set res \<and>
          make_image_content_response ?e (Some k) p = Inr r \<longrightarrow> map_of res k = Some r)"
    ..
  note g = all [THEN conjunct1]
  note k = all [THEN conjunct2, THEN conjunct1]
  note v = all [THEN conjunct2, THEN conjunct2]
  have k1: "''os'' \<in> fst ` set res"
    using k [rule_format, of "''os''"] unfolding reg low by simp
  have k2: "''java'' \<notin> fst ` set res"
    using k [rule_format, of "''java''"] unfolding reg low by simp
  have k3: "''unsupported'' \<notin> fst ` set res"
    using k [rule_format, of "''unsupported''"] unfolding reg low by simp
  have v1: "map_of res ''os'' = Some (JArr [JObj [(''musl'', JStr ''1.2.3'')]])"
    using v [rule_format, of "''os''" "JObj [(''musl'', JStr ''1.2.3'')]"] k1 os by simp
  show ?thesis
    by (rule exI [of _ res]) (intro conjI g k1 k2 k3 v1)
qed

lemma hydrate_multi_empty_document:
  "\<not> truthy d \<Longrightarrow> hydrate_multi e self d = Inr (JObj [])"
  by (simp add: hydrate_multi_def)

lemma hydrate_multi_no_types:
  "truthy d \<Longrightarrow>
     hydrate_multi e (MultipleContentTypesGetter_init account [] digest) d =
       Inl (AttributeError ''content_types'')"
  by (simp add: hydrate_multi_def MultipleContentTypesGetter_init_def)

text \<open>
  C3. The claim: with an empty document or an empty list of requested types, \<open>get\<close> of
  the multi-type getter returns the empty mapping. With an empty document it does
  (\<open>hydrate_multi_empty_document\<close>). With an empty list of requested types the
  constructor never sets \<open>content_types\<close>, and the hook reads the attribute as soon as the
  document is not empty: the request below, for no types on an image whose document has
  an \<open>os\<close> entry, ends in \<open>AttributeError\<close>, not in the empty mapping.
\<close>

theorem multi_get_no_types_raises:
  "fst (get (sample_env (sample_db (sample_report ''sha256:aa'' ''analyzed'' None []))) Multi
          (MultipleContentTypesGetter_init ''admin'' [] ''sha256:aa'') False
          (sample_store [(''admin'', ''image_content_data'', ''sha256:aa'') \<mapsto>
             JsonText (JObj [(''document'',
               JObj [(''os'', JObj [(''musl'', JStr ''1.2.3'')])])])])) =
     Inl (AttributeError ''content_types'')"
proof -
  let ?r = "sample_report ''sha256:aa'' ''analyzed'' None []"
  let ?e = "sample_env (sample_db ?r)"
  let ?g = "MultipleContentTypesGetter_init ''admin'' [] ''sha256:aa''"
  let ?doc = "JObj [(''os'', JObj [(''musl'', JStr ''1.2.3'')])]"
  let ?s = "sample_store [(''admin'', ''image_content_data'', ''sha256:aa'') \<mapsto>
             JsonText (JObj [(''document'', ?doc)])]"
  have self: "account_id ?g = ''admin''" "image_digest ?g = ''sha256:aa''"
    by (simp_all add: MultipleContentTypesGetter_init_def)
  have db: "db_catalog_image_get ?e (image_digest ?g) (account_id ?g) = Some ?r"
    unfolding self by (simp add: sample_env_def sample_db_def sample_report_def)
  have st: "verify_analysis_status ?e ?g ?r False = Inr ()"
    by (simp add: verify_analysis_status_def sample_env_def sample_report_def)
  have fetch: "get_image_content_data ?e Multi ?g (image_digest ?g) ?s =
      (Inr ?doc, ?s\<lparr>calls := calls ?s @
          [StoreGet (account_id ?g, ''image_content_data'', image_digest ?g)]\<rparr>)"
    by (rule get_image_content_data_ok [where envelope = "[(''document'', ?doc)]"])
      (simp_all add: self sample_store_def)
  have h: "hydrate_multi ?e ?g ?doc = Inl (AttributeError ''content_types'')"
    by (rule hydrate_multi_no_types) simp
  show ?thesis
    using db st fetch h
    by (simp add: get_def verify_content_type_def normalize_to_user_format_on_load_def
        hydrate_additional_data_def)
qed

section \<open>A failing fetch\<close>

lemma get_image_content_data_failure:
  assumes "get_image_content_data e v self d s = (Inl err, s')"
  shows "\<exists>cause. err = make_anchore_exception e cause
           (if v = Manifest
            then ''cannot fetch content data '' @ py_str (content_type self) @ '' from archive''
            else ''cannot fetch content data from archive'') 500"
  using assms
  by (auto simp: get_image_content_data_def split: if_splits prod.splits sum.splits)

lemma load_document_not_json:
  assumes "\<not> get_fails s k" and "objects s k = Some NotJson"
  shows "fst (load_document s k) = Inl JSONDecodeError"
  using assms by (simp add: load_document_def obj_get_def Let_def json_loads_def)

lemma get_not_json:
  assumes "db_catalog_image_get e (image_digest self) (account_id self) = Some report"
    and "verify_analysis_status e self report allow = Inr ()"
    and "v \<noteq> Manifest"
    and "\<not> get_fails s (account_id self, ''image_content_data'', image_digest self)"
    and "objects s (account_id self, ''image_content_data'', image_digest self) = Some NotJson"
  shows "fst (get e v self allow s) =
           Inl (make_anchore_exception e JSONDecodeError
                  ''cannot fetch content data from archive'' 500)"
  using assms(1,2,3) load_document_not_json [OF assms(4,5)]
  by (auto simp: get_def get_image_content_data_def split: prod.splits sum.splits)

text \<open>
  C4. The claim: a failing fetch makes \<open>get\<close> fail with a server-side error whose
  message is not the text of the underlying exception and whose detail holds the
  account, the content type and the digest. The first two hold
  (\<open>get_image_content_data_failure\<close>): the error is built by \<open>make_anchore_exception\<close>
  from the cause, a fixed message and the code 500. But these three arguments are all
  the wrapper is given: unlike the other error paths, this one does not pass
  \<open>get_error_detail\<close>. Two requests that differ in account and digest, each on a stored
  text that is not JSON, therefore fail with the same error value, which holds neither
  account nor digest.
\<close>

theorem get_upstream_failure_without_detail:
  "fst (get (sample_env (sample_db (sample_report ''sha256:aa'' ''analyzed'' None []))) Base
          (ImageContentGetter_init ''admin'' ''os'' ''sha256:aa'') False
          (sample_store [(''admin'', ''image_content_data'', ''sha256:aa'') \<mapsto> NotJson])) =
     Inl (AnchoreException JSONDecodeError ''cannot fetch content data from archive'' 500) \<and>
   fst (get (sample_env (sample_db (sample_report ''sha256:bb'' ''analyzed'' None []))) Base
          (ImageContentGetter_init ''guest'' ''os'' ''sha256:bb'') False
          (sample_store [(''guest'', ''image_content_data'', ''sha256:bb'') \<mapsto> NotJson])) =
     Inl (AnchoreException JSONDecodeError ''cannot fetch content data from archive'' 500)"
proof -
  have a: "fst (get (sample_env (sample_db (sample_report d ''analyzed'' None []))) Base
          (ImageContentGetter_init a ''os'' d) False
          (sample_store [(a, ''image_content_data'', d) \<mapsto> NotJson])) =
     Inl (AnchoreException JSONDecodeError ''cannot fetch content data from archive'' 500)"
    for a d
  proof -
    let ?r = "sample_report d ''analyzed'' None []"
    let ?e = "sample_env (sample_db ?r)"
    let ?g = "ImageContentGetter_init a ''os'' d"
    let ?s = "sample_store [(a, ''image_content_data'', d) \<mapsto> NotJson]"
    have self: "account_id ?g = a" "image_digest ?g = d"
      by (simp_all add: ImageContentGetter_init_def)
    have db: "db_catalog_image_get ?e (image_digest ?g) (account_id ?g) = Some ?r"
      unfolding self by (simp add: sample_env_def sample_db_def sample_report_def)
    have st: "verify_analysis_status ?e ?g ?r False = Inr ()"
      by (simp add: verify_analysis_status_def sample_env_def sample_report_def)
    have s1: "\<not> get_fails ?s (account_id ?g, ''image_content_data'', image_digest ?g)"
      by (simp add: sample_store_def)
    have s2: "objects ?s (account_id ?g, ''image_content_data'', image_digest ?g) = Some NotJson"
      unfolding self by (simp add: sample_store_def)
    have m: "make_anchore_exception ?e = AnchoreException"
      by (simp add: sample_env_def)
    show ?thesis
      using get_not_json [OF db st _ s1 s2, of Base] unfolding m by simp
  qed
  show ?thesis
    using a [where a = "''admin''" and d = "''sha256:aa''"]
      a [where a = "''guest''" and d = "''sha256:bb''"]
    by (rule conjI)
qed

section \<open>The Dockerfile getter\<close>

lemma migrate_details_skip:
  assumes "\<forall>x \<in> set pre. dockerfile x = None \<or> dockerfile x = Some []"
  shows "migrate_details e self report (pre @ rest) doc s =
           migrate_details e self report rest doc s"
  using assms by (induction pre) auto

lemma migrate_details_no_body:
  assumes "\<forall>x \<in> set ds. dockerfile x = None \<or> dockerfile x = Some []"
  shows "migrate_details e self report ds doc s = (None, doc, s)"
  using migrate_details_skip [OF assms, of e self report "[]" doc s] by simp

lemma migrate_details_decode_fails:
  assumes "\<forall>x \<in> set pre. dockerfile x = None \<or> dockerfile x = Some []"
    and "dockerfile d = Some body" and "body \<noteq> []"
    and "decode_dockerfile e body = Inl err"
  shows "migrate_details e self report (pre @ d # post) doc s = (Some err, doc, s)"
  using assms(2,3,4) by (simp add: migrate_details_skip [OF assms(1)])

lemma migrate_details_put_fails:
  assumes "\<forall>x \<in> set pre. dockerfile x = None \<or> dockerfile x = Some []"
    and "dockerfile d = Some body" and "body \<noteq> []"
    and "decode_dockerfile e body = Inr txt"
    and "put_fails s (account_id self, ''image_content_data'', imageDigest report)"
  shows "migrate_details e self report (pre @ d # post) doc s =
           (Some ObjectStoreError, dict_set doc ''dockerfile'' (JStr txt),
            s\<lparr>calls := calls s @
               [StorePut (account_id self, ''image_content_data'', imageDigest report)
                  (JsonText (JObj [(''document'', JObj (dict_set doc ''dockerfile'' (JStr txt)))]))]\<rparr>)"
  using assms(2,3,4,5)
  by (simp add: migrate_details_skip [OF assms(1)] obj_put_def Let_def json_dumps_def)

lemma migrate_details_written:
  assumes "\<forall>x \<in> set pre. dockerfile x = None \<or> dockerfile x = Some []"
    and "dockerfile d = Some body" and "body \<noteq> []"
    and "decode_dockerfile e body = Inr txt"
    and "\<not> put_fails s (account_id self, ''image_content_data'', imageDigest report)"
  shows "migrate_details e self report (pre @ d # post) doc s =
           (None, dict_set doc ''dockerfile'' (JStr txt),
            s\<lparr>calls := calls s @
               [StorePut (account_id self, ''image_content_data'', imageDigest report)
                  (JsonText (JObj [(''document'', JObj (dict_set doc ''dockerfile'' (JStr txt)))]))],
              objects := (objects s)((account_id self, ''image_content_data'', imageDigest report) \<mapsto>
                  JsonText (JObj [(''document'', JObj (dict_set doc ''dockerfile'' (JStr txt)))]))\<rparr>)"
  using assms(2,3,4,5)
  by (simp add: migrate_details_skip [OF assms(1)] obj_put_def Let_def json_dumps_def)

lemma get_dockerfile_present:
  assumes "db_catalog_image_get e (image_digest self) (account_id self) = Some report"
    and "verify_analysis_status e self report allow = Inr ()"
    and "\<not> get_fails s (account_id self, ''image_content_data'', image_digest self)"
    and "objects s (account_id self, ''image_content_data'', image_digest self) =
           Some (JsonText (JObj envelope))"
    and "map_of envelope ''document'' = Some (JObj doc)"
    and "content_type self = Some ct" and "ct \<in> fst ` set doc"
  shows "get e Dockerfile self allow s =
           hydrate_dockerfile e self (JObj doc) report
             (s\<lparr>calls := calls s @
                [StoreGet (account_id self, ''image_content_data'', image_digest self)]\<rparr>)"
  using assms(1,2,6,7)
    get_image_content_data_ok [of Dockerfile s self "image_digest self" envelope "JObj doc" e,
      OF _ assms(3,4,5)]
  by (simp add: get_def verify_content_type_def normalize_to_user_format_on_load_def
      hydrate_additional_data_def)

lemma make_response_present:
  assumes "content_type self = Some ct" and "map_of doc ct = Some p"
  shows "make_response e self (JObj doc) = make_image_content_response e (Some ct) p"
  using assms by (simp add: make_response_def)

text \<open>
  C9. A request of the Dockerfile getter reaches the migration step when the requested
  type is a key of the fetched document, the document has no truthy \<open>dockerfile\<close> entry,
  the mode of the record is \<open>Actual\<close> and an entry of \<open>image_detail\<close> carries a body.
  When decoding that body raises, \<open>get\<close> returns what the formatter makes of the payload
  of the requested type in the unchanged document, and the store sees the fetch only.
  When decoding succeeds and the write to the object store raises, \<open>get\<close> returns what
  the formatter makes of the payload of the requested type in the in-memory document,
  which holds the decoded text under \<open>dockerfile\<close>; the stored objects are unchanged. In
  neither case does the exception of the migration step reach the caller.
\<close>

theorem dockerfile_migration_failure_caught:
  assumes db: "db_catalog_image_get e (image_digest self) (account_id self) = Some report"
    and st: "verify_analysis_status e self report allow = Inr ()"
    and nofail: "\<not> get_fails s (account_id self, ''image_content_data'', image_digest self)"
    and obj: "objects s (account_id self, ''image_content_data'', image_digest self) =
                Some (JsonText (JObj envelope))"
    and doc: "map_of envelope ''document'' = Some (JObj doc)"
    and ct: "content_type self = Some ct"
    and p: "map_of doc ct = Some p"
    and nodf: "\<forall>q. map_of doc ''dockerfile'' = Some q \<longrightarrow> \<not> truthy q"
    and mode: "dockerfile_mode report = Some ''Actual''"
    and details: "image_detail report = pre @ d # post"
    and pre: "\<forall>x \<in> set pre. dockerfile x = None \<or> dockerfile x = Some []"
    and body: "dockerfile d = Some body" "body \<noteq> []"
  shows "(\<forall>err. decode_dockerfile e body = Inl err \<longrightarrow>
            get e Dockerfile self allow s =
              (make_image_content_response e (Some ct) p,
               s\<lparr>calls := calls s @
                  [StoreGet (account_id self, ''image_content_data'', image_digest self)]\<rparr>)) \<and>
         (\<forall>txt. decode_dockerfile e body = Inr txt \<and>
                put_fails s (account_id self, ''image_content_data'', imageDigest report) \<longrightarrow>
            fst (get e Dockerfile self allow s) =
              make_image_content_response e (Some ct)
                (if ct = ''dockerfile'' then JStr txt else p) \<and>
            objects (snd (get e Dockerfile self allow s)) = objects s)"
proof -
  let ?s1 = "s\<lparr>calls := calls s @
      [StoreGet (account_id self, ''image_content_data'', image_digest self)]\<rparr>"
  have key: "ct \<in> fst ` set doc"
    using map_of_SomeD [OF p] by (rule image_eqI [of _ fst, rotated]) simp
  have g: "get e Dockerfile self allow s = hydrate_dockerfile e self (JObj doc) report ?s1"
    by (rule get_dockerfile_present [OF db st nofail obj doc ct key])
  have nt: "\<not> (case map_of doc ''dockerfile'' of None \<Rightarrow> False | Some q \<Rightarrow> truthy q)"
    using nodf by (cases "map_of doc ''dockerfile''") auto
  have h: "hydrate_dockerfile e self (JObj doc) report ?s1 =
      (case migrate_details e self report (pre @ d # post) doc ?s1 of
         (err, doc', s') \<Rightarrow> (make_response e self (JObj doc'), s'))"
    using nt mode details by (simp add: hydrate_dockerfile_def)
  have a: "get e Dockerfile self allow s = (make_image_content_response e (Some ct) p, ?s1)"
    if dec: "decode_dockerfile e body = Inl err" for err
    unfolding g h migrate_details_decode_fails [OF pre body dec]
    by (simp add: make_response_present [OF ct p])
  have b: "fst (get e Dockerfile self allow s) =
             make_image_content_response e (Some ct) (if ct = ''dockerfile'' then JStr decoded else p) \<and>
           objects (snd (get e Dockerfile self allow s)) = objects s"
    if dec: "decode_dockerfile e body = Inr decoded"
      and pf: "put_fails s (account_id self, ''image_content_data'', imageDigest report)" for decoded
  proof -
    have pf1: "put_fails ?s1 (account_id self, ''image_content_data'', imageDigest report)"
      using pf by simp
    have p': "map_of (dict_set doc ''dockerfile'' (JStr decoded)) ct =
        Some (if ct = ''dockerfile'' then JStr decoded else p)"
      using p by (simp add: map_of_dict_set)
    show ?thesis
      unfolding g h migrate_details_put_fails [OF pre body dec pf1]
      by (simp add: make_response_present [OF ct p'])
  qed
  show ?thesis using a b by blast
qed

theorem dockerfile_migration_failure_caught_witness:
  "get (sample_env (sample_db (sample_report ''sha256:aa'' ''analyzed'' (Some ''Actual'')
          [\<lparr>dockerfile = None\<rparr>, \<lparr>dockerfile = Some ''A''\<rparr>])))
     Dockerfile (ImageContentGetter_init ''admin'' ''dockerfile'' ''sha256:aa'') False
     (sample_store [(''admin'', ''image_content_data'', ''sha256:aa'') \<mapsto>
        JsonText (JObj [(''document'', JObj [(''dockerfile'', JStr '''')])])]) =
     (Inr (JArr []),
      (sample_store [(''admin'', ''image_content_data'', ''sha256:aa'') \<mapsto>
        JsonText (JObj [(''document'', JObj [(''dockerfile'', JStr '''')])])])
       \<lparr>calls := [StoreGet (''admin'', ''image_content_data'', ''sha256:aa'')]\<rparr>) \<and>
   fst (get (sample_env (sample_db (sample_report ''sha256:aa'' ''analyzed'' (Some ''Actual'')
          [\<lparr>dockerfile = Some ''RlJPTSBzY3JhdGNo''\<rparr>])))
     Dockerfile (ImageContentGetter_init ''admin'' ''dockerfile'' ''sha256:aa'') False
     (sample_read_only_store [(''admin'', ''image_content_data'', ''sha256:aa'') \<mapsto>
        JsonText (JObj [(''document'', JObj [(''dockerfile'', JStr '''')])])])) =
     Inr (JStr ''FROM scratch'')"
proof -
  let ?g = "ImageContentGetter_init ''admin'' ''dockerfile'' ''sha256:aa''"
  let ?doc = "[(''dockerfile'', JStr '''')]"
  let ?env = "[(''document'', JObj ?doc)]"
  let ?objs = "[(''admin'', ''image_content_data'', ''sha256:aa'') \<mapsto> JsonText (JObj ?env)]"
  let ?r1 = "sample_report ''sha256:aa'' ''analyzed'' (Some ''Actual'')
          [\<lparr>dockerfile = None\<rparr>, \<lparr>dockerfile = Some ''A''\<rparr>]"
  let ?r2 = "sample_report ''sha256:aa'' ''analyzed'' (Some ''Actual'')
          [\<lparr>dockerfile = Some ''RlJPTSBzY3JhdGNo''\<rparr>]"
  have self: "account_id ?g = ''admin''" "image_digest ?g = ''sha256:aa''"
    "content_type ?g = Some ''dockerfile''"
    by (simp_all add: ImageContentGetter_init_def)
  have db: "db_catalog_image_get (sample_env (sample_db r)) (image_digest ?g) (account_id ?g) = Some r"
    if "imageDigest r = ''sha256:aa''" for r
    using that unfolding self by (simp add: sample_env_def sample_db_def)
  have st: "verify_analysis_status (sample_env (sample_db r)) ?g r False = Inr ()"
    if "analysis_status r = ''analyzed''" for r
    using that by (simp add: verify_analysis_status_def sample_env_def)
  have r1: "imageDigest ?r1 = ''sha256:aa''" "analysis_status ?r1 = ''analyzed''"
    "dockerfile_mode ?r1 = Some ''Actual''"
    "image_detail ?r1 = [\<lparr>dockerfile = None\<rparr>] @ \<lparr>dockerfile = Some ''A''\<rparr> # []"
    by (simp_all add: sample_report_def)
  have r2: "imageDigest ?r2 = ''sha256:aa''" "analysis_status ?r2 = ''analyzed''"
    "dockerfile_mode ?r2 = Some ''Actual''"
    "image_detail ?r2 = [] @ \<lparr>dockerfile = Some ''RlJPTSBzY3JhdGNo''\<rparr> # []"
    by (simp_all add: sample_report_def)
  have s1: "\<not> get_fails (sample_store ?objs) (account_id ?g, ''image_content_data'', image_digest ?g)"
    "objects (sample_store ?objs) (account_id ?g, ''image_content_data'', image_digest ?g) =
       Some (JsonText (JObj ?env))"
    "calls (sample_store ?objs) = []"
    unfolding self by (simp_all add: sample_store_def)
  have s2: "\<not> get_fails (sample_read_only_store ?objs)
                (account_id ?g, ''image_content_data'', image_digest ?g)"
    "objects (sample_read_only_store ?objs) (account_id ?g, ''image_content_data'', image_digest ?g) =
       Some (JsonText (JObj ?env))"
    "put_fails (sample_read_only_store ?objs) (account_id ?g, ''image_content_data'', imageDigest ?r2)"
    unfolding self by (simp_all add: sample_read_only_store_def)
  have doc: "map_of ?env ''document'' = Some (JObj ?doc)" by simp
  have p: "map_of ?doc ''dockerfile'' = Some (JStr '''')" by simp
  have nodf: "\<forall>q. map_of ?doc ''dockerfile'' = Some q \<longrightarrow> \<not> truthy q" by simp
  have pre1: "\<forall>x \<in> set [\<lparr>dockerfile = None\<rparr>]. dockerfile x = None \<or> dockerfile x = Some []"
    by simp
  have pre2: "\<forall>x \<in> set ([] :: image_detail list). dockerfile x = None \<or> dockerfile x = Some []"
    by simp
  have b1: "dockerfile \<lparr>dockerfile = Some ''A''\<rparr> = Some ''A''" "''A'' \<noteq> []"
    by simp_all
  have b2: "dockerfile \<lparr>dockerfile = Some ''RlJPTSBzY3JhdGNo''\<rparr> = Some ''RlJPTSBzY3JhdGNo''"
    "''RlJPTSBzY3JhdGNo'' \<noteq> []"
    by simp_all
  have d1: "decode_dockerfile (sample_env (sample_db ?r1)) ''A'' = Inl DecodeError"
    by (simp add: sample_env_def sample_decode_def)
  have d2: "decode_dockerfile (sample_env (sample_db ?r2)) ''RlJPTSBzY3JhdGNo'' = Inr ''FROM scratch''"
    by (simp add: sample_env_def sample_decode_def)
  have f1: "make_image_content_response (sample_env (sample_db ?r1)) (Some ''dockerfile'') (JStr '''') =
      Inr (JArr [])"
    by (simp add: sample_env_def sample_formatter_def)
  have f2: "make_image_content_response (sample_env (sample_db ?r2)) (Some ''dockerfile'')
      (JStr ''FROM scratch'') = Inr (JStr ''FROM scratch'')"
    by (simp add: sample_env_def sample_formatter_def)
  note t1 = dockerfile_migration_failure_caught
    [OF db [OF r1(1)] st [OF r1(2)] s1(1,2) doc self(3) p nodf r1(3,4) pre1 b1,
      THEN conjunct1, rule_format, OF d1]
  note t2 = dockerfile_migration_failure_caught
    [OF db [OF r2(1)] st [OF r2(2)] s2(1,2) doc self(3) p nodf r2(3,4) pre2 b2,
      THEN conjunct2, rule_format, OF conjI [OF d2 s2(3)], THEN conjunct1]
  have a: "get (sample_env (sample_db ?r1)) Dockerfile ?g False (sample_store ?objs) =
     (Inr (JArr []),
      (sample_store ?objs)\<lparr>calls := [StoreGet (''admin'', ''image_content_data'', ''sha256:aa'')]\<rparr>)"
    using t1 f1 s1(3) self by simp
  have b: "fst (get (sample_env (sample_db ?r2)) Dockerfile ?g False (sample_read_only_store ?objs)) =
     Inr (JStr ''FROM scratch'')"
    using t2 f2 by simp
  show ?thesis using a b by (rule conjI)
qed

lemma get_absent_type:
  assumes "db_catalog_image_get e (image_digest self) (account_id self) = Some report"
    and "verify_analysis_status e self report allow = Inr ()"
    and "get_image_content_data e v self (image_digest self) s = (Inr (JObj doc), s1)"
    and "v \<noteq> Multi"
    and "content_type self = Some ct" and "ct \<notin> fst ` set doc"
  shows "get e v self allow s =
           (Inl (BadRequest
                   (''image content of type ('' @ ct @
                    '') was not an available type at analysis time for this image'')
                   \<lparr>detail_account_id = account_id self,
                    detail_content_type = Some ct,
                    detail_image_digest = image_digest self\<rparr>), s1)"
  using assms
  by (simp add: get_def verify_content_type_def py_str_def get_error_detail_def)

lemma get_dockerfile_migrates:
  assumes db: "db_catalog_image_get e (image_digest self) (account_id self) = Some report"
    and st: "verify_analysis_status e self report allow = Inr ()"
    and nofail: "\<not> get_fails s (account_id self, ''image_content_data'', image_digest self)"
    and obj: "objects s (account_id self, ''image_content_data'', image_digest self) =
                Some (JsonText (JObj envelope))"
    and doc: "map_of envelope ''document'' = Some (JObj doc)"
    and ct: "content_type self = Some ct"
    and p: "map_of doc ct = Some p"
    and nodf: "\<forall>q. map_of doc ''dockerfile'' = Some q \<longrightarrow> \<not> truthy q"
    and mode: "dockerfile_mode report = Some ''Actual''"
    and details: "image_detail report = pre @ d # post"
    and pre: "\<forall>x \<in> set pre. dockerfile x = None \<or> dockerfile x = Some []"
    and body: "dockerfile d = Some body" "body \<noteq> []"
    and dec: "decode_dockerfile e body = Inr decoded"
    and writable: "\<not> put_fails s (account_id self, ''image_content_data'', imageDigest report)"
  shows "get e Dockerfile self allow s =
           (make_image_content_response e (Some ct) (if ct = ''dockerfile'' then JStr decoded else p),
            s\<lparr>calls := calls s @
                 [StoreGet (account_id self, ''image_content_data'', image_digest self),
                  StorePut (account_id self, ''image_content_data'', imageDigest report)
                    (JsonText (JObj [(''document'',
                       JObj (dict_set doc ''dockerfile'' (JStr decoded)))]))],
               objects := (objects s)
                 ((account_id self, ''image_content_data'', imageDigest report) \<mapsto>
                    JsonText (JObj [(''document'',
                       JObj (dict_set doc ''dockerfile'' (JStr decoded)))]))\<rparr>)"
proof -
  let ?s1 = "s\<lparr>calls := calls s @
      [StoreGet (account_id self, ''image_content_data'', image_digest self)]\<rparr>"
  have key: "ct \<in> fst ` set doc"
    using map_of_SomeD [OF p] by (rule image_eqI [of _ fst, rotated]) simp
  have g: "get e Dockerfile self allow s = hydrate_dockerfile e self (JObj doc) report ?s1"
    by (rule get_dockerfile_present [OF db st nofail obj doc ct key])
  have nt: "\<not> (case map_of doc ''dockerfile'' of None \<Rightarrow> False | Some q \<Rightarrow> truthy q)"
    using nodf by (cases "map_of doc ''dockerfile''") auto
  have h: "hydrate_dockerfile e self (JObj doc) report ?s1 =
      (case migrate_details e self report (pre @ d # post) doc ?s1 of
         (err, doc', s') \<Rightarrow> (make_response e self (JObj doc'), s'))"
    using nt mode details by (simp add: hydrate_dockerfile_def)
  have w1: "\<not> put_fails ?s1 (account_id self, ''image_content_data'', imageDigest report)"
    using writable by simp
  have p': "map_of (dict_set doc ''dockerfile'' (JStr decoded)) ct =
      Some (if ct = ''dockerfile'' then JStr decoded else p)"
    using p by (simp add: map_of_dict_set)
  show ?thesis
    unfolding g h migrate_details_written [OF pre body dec w1]
    by (simp add: make_response_present [OF ct p'])
qed

lemma get_dockerfile_stored:
  assumes db: "db_catalog_image_get e (image_digest self) (account_id self) = Some report"
    and st: "verify_analysis_status e self report allow = Inr ()"
    and nofail: "\<not> get_fails s (account_id self, ''image_content_data'', image_digest self)"
    and obj: "objects s (account_id self, ''image_content_data'', image_digest self) =
                Some (JsonText (JObj envelope))"
    and doc: "map_of envelope ''document'' = Some (JObj doc)"
    and ct: "content_type self = Some ct"
    and p: "map_of doc ct = Some p"
    and df: "map_of doc ''dockerfile'' = Some q" "truthy q"
  shows "get e Dockerfile self allow s =
           (make_image_content_response e (Some ct) p,
            s\<lparr>calls := calls s @
                 [StoreGet (account_id self, ''image_content_data'', image_digest self)]\<rparr>)"
proof -
  have key: "ct \<in> fst ` set doc"
    using map_of_SomeD [OF p] by (rule image_eqI [of _ fst, rotated]) simp
  show ?thesis
    unfolding get_dockerfile_present [OF db st nofail obj doc ct key]
    using df by (simp add: hydrate_dockerfile_def make_response_present [OF ct p])
qed

text \<open>
  C1, as amended. The document holds the key \<open>dockerfile\<close> with an empty (falsy) value,
  the requested type is \<open>dockerfile\<close>, the mode of the record is \<open>Actual\<close>, the first
  entry of \<open>image_detail\<close> that has a body has one that decodes, the record carries the
  digest it was looked up by, and the write does not fail. Then \<open>get\<close> returns what the
  formatter makes of the decoded text; the object under the key of the fetch is now the
  envelope of the document with the decoded text under \<open>dockerfile\<close>, so that a fetch
  from the store \<open>get\<close> leaves finds it there; and a second \<open>get\<close> on that store returns
  the same result as the first.
\<close>

theorem dockerfile_migration_persisted:
  assumes db: "db_catalog_image_get e (image_digest self) (account_id self) = Some report"
    and st: "verify_analysis_status e self report allow = Inr ()"
    and nofail: "\<not> get_fails s (account_id self, ''image_content_data'', image_digest self)"
    and obj: "objects s (account_id self, ''image_content_data'', image_digest self) =
                Some (JsonText (JObj envelope))"
    and doc: "map_of envelope ''document'' = Some (JObj doc)"
    and ct: "content_type self = Some ''dockerfile''"
    and empty: "map_of doc ''dockerfile'' = Some q" "\<not> truthy q"
    and mode: "dockerfile_mode report = Some ''Actual''"
    and details: "image_detail report = pre @ d # post"
    and pre: "\<forall>x \<in> set pre. dockerfile x = None \<or> dockerfile x = Some []"
    and body: "dockerfile d = Some body" "body \<noteq> []"
    and dec: "decode_dockerfile e body = Inr decoded"
    and digest: "imageDigest report = image_digest self"
    and writable: "\<not> put_fails s (account_id self, ''image_content_data'', image_digest self)"
  shows "fst (get e Dockerfile self allow s) =
           make_image_content_response e (Some ''dockerfile'') (JStr decoded) \<and>
         objects (snd (get e Dockerfile self allow s))
             (account_id self, ''image_content_data'', image_digest self) =
           Some (JsonText (JObj [(''document'',
                   JObj (dict_set doc ''dockerfile'' (JStr decoded)))])) \<and>
         fst (get_image_content_data e Dockerfile self (image_digest self)
                (snd (get e Dockerfile self allow s))) =
           Inr (JObj (dict_set doc ''dockerfile'' (JStr decoded))) \<and>
         map_of (dict_set doc ''dockerfile'' (JStr decoded)) ''dockerfile'' = Some (JStr decoded) \<and>
         fst (get e Dockerfile self allow (snd (get e Dockerfile self allow s))) =
           fst (get e Dockerfile self allow s)"
proof -
  let ?k = "(account_id self, ''image_content_data'', image_digest self)"
  let ?doc' = "dict_set doc ''dockerfile'' (JStr decoded)"
  let ?env' = "[(''document'', JObj ?doc')]"
  let ?s2 = "s\<lparr>calls := calls s @ [StoreGet ?k, StorePut ?k (JsonText (JObj ?env'))],
               objects := (objects s)(?k \<mapsto> JsonText (JObj ?env'))\<rparr>"
  have nodf: "\<forall>x. map_of doc ''dockerfile'' = Some x \<longrightarrow> \<not> truthy x"
    using empty by simp
  have w: "\<not> put_fails s (account_id self, ''image_content_data'', imageDigest report)"
    using writable digest by simp
  have g1: "get e Dockerfile self allow s =
      (make_image_content_response e (Some ''dockerfile'') (JStr decoded), ?s2)"
    using get_dockerfile_migrates
      [OF db st nofail obj doc ct empty(1) nodf mode details pre body dec w]
    unfolding digest by simp
  have nofail2: "\<not> get_fails ?s2 ?k" using nofail by simp
  have obj2: "objects ?s2 ?k = Some (JsonText (JObj ?env'))" by simp
  have doc2: "map_of ?env' ''document'' = Some (JObj ?doc')" by simp
  have p2: "map_of ?doc' ''dockerfile'' = Some (JStr decoded)"
    by (simp add: map_of_dict_set)
  have fetch2: "fst (get_image_content_data e Dockerfile self (image_digest self) ?s2) =
      Inr (JObj ?doc')"
    using get_image_content_data_ok [of Dockerfile ?s2 self "image_digest self" ?env' "JObj ?doc'" e,
        OF _ nofail2 obj2 doc2]
    by simp
  have g2: "fst (get e Dockerfile self allow ?s2) =
      make_image_content_response e (Some ''dockerfile'') (JStr decoded)"
  proof (cases "decoded = []")
    case False
    then have t: "truthy (JStr decoded)" by simp
    show ?thesis
      using get_dockerfile_stored [OF db st nofail2 obj2 doc2 ct p2 p2 t] by simp
  next
    case True
    have nodf2: "\<forall>x. map_of ?doc' ''dockerfile'' = Some x \<longrightarrow> \<not> truthy x"
      using True by (simp add: map_of_dict_set)
    have w2: "\<not> put_fails ?s2 (account_id self, ''image_content_data'', imageDigest report)"
      using w by simp
    show ?thesis
      using get_dockerfile_migrates
        [OF db st nofail2 obj2 doc2 ct p2 nodf2 mode details pre body dec w2]
      by simp
  qed
  show ?thesis
    unfolding g1 using g2 fetch2 p2 by simp
qed

theorem dockerfile_migration_persisted_witness:
  "fst (get (sample_env (sample_db (sample_report ''sha256:aa'' ''analyzed'' (Some ''Actual'')
               [\<lparr>dockerfile = Some ''RlJPTSBzY3JhdGNo''\<rparr>])))
          Dockerfile (ImageContentGetter_init ''admin'' ''dockerfile'' ''sha256:aa'') False
          (sample_store [(''admin'', ''image_content_data'', ''sha256:aa'') \<mapsto>
             JsonText (JObj [(''document'',
               JObj [(''os'', JObj []), (''dockerfile'', JStr '''')])])])) =
     Inr (JStr ''FROM scratch'') \<and>
   objects (snd (get (sample_env (sample_db (sample_report ''sha256:aa'' ''analyzed'' (Some ''Actual'')
               [\<lparr>dockerfile = Some ''RlJPTSBzY3JhdGNo''\<rparr>])))
          Dockerfile (ImageContentGetter_init ''admin'' ''dockerfile'' ''sha256:aa'') False
          (sample_store [(''admin'', ''image_content_data'', ''sha256:aa'') \<mapsto>
             JsonText (JObj [(''document'',
               JObj [(''os'', JObj []), (''dockerfile'', JStr '''')])])])))
       (''admin'', ''image_content_data'', ''sha256:aa'') =
     Some (JsonText (JObj [(''document'',
             JObj [(''os'', JObj []), (''dockerfile'', JStr ''FROM scratch'')])])) \<and>
   fst (get (sample_env (sample_db (sample_report ''sha256:aa'' ''analyzed'' (Some ''Actual'')
               [\<lparr>dockerfile = Some ''RlJPTSBzY3JhdGNo''\<rparr>])))
          Dockerfile (ImageContentGetter_init ''admin'' ''dockerfile'' ''sha256:aa'') False
          (snd (get (sample_env (sample_db (sample_report ''sha256:aa'' ''analyzed'' (Some ''Actual'')
               [\<lparr>dockerfile = Some ''RlJPTSBzY3JhdGNo''\<rparr>])))
          Dockerfile (ImageContentGetter_init ''admin'' ''dockerfile'' ''sha256:aa'') False
          (sample_store [(''admin'', ''image_content_data'', ''sha256:aa'') \<mapsto>
             JsonText (JObj [(''document'',
               JObj [(''os'', JObj []), (''dockerfile'', JStr '''')])])])))) =
     Inr (JStr ''FROM scratch'')"
proof -
  let ?g = "ImageContentGetter_init ''admin'' ''dockerfile'' ''sha256:aa''"
  let ?doc = "[(''os'', JObj []), (''dockerfile'', JStr '''')]"
  let ?env = "[(''document'', JObj ?doc)]"
  let ?s = "sample_store [(''admin'', ''image_content_data'', ''sha256:aa'') \<mapsto>
      JsonText (JObj ?env)]"
  let ?r = "sample_report ''sha256:aa'' ''analyzed'' (Some ''Actual'')
          [\<lparr>dockerfile = Some ''RlJPTSBzY3JhdGNo''\<rparr>]"
  let ?e = "sample_env (sample_db ?r)"
  have self: "account_id ?g = ''admin''" "image_digest ?g = ''sha256:aa''"
    "content_type ?g = Some ''dockerfile''"
    by (simp_all add: ImageContentGetter_init_def)
  have r: "imageDigest ?r = image_digest ?g" "analysis_status ?r = ''analyzed''"
    "dockerfile_mode ?r = Some ''Actual''"
    "image_detail ?r = [] @ \<lparr>dockerfile = Some ''RlJPTSBzY3JhdGNo''\<rparr> # []"
    unfolding self by (simp_all add: sample_report_def)
  have db: "db_catalog_image_get ?e (image_digest ?g) (account_id ?g) = Some ?r"
    unfolding self by (simp add: sample_env_def sample_db_def sample_report_def)
  have st: "verify_analysis_status ?e ?g ?r False = Inr ()"
    using r(2) by (simp add: verify_analysis_status_def sample_env_def)
  have s: "\<not> get_fails ?s (account_id ?g, ''image_content_data'', image_digest ?g)"
    "objects ?s (account_id ?g, ''image_content_data'', image_digest ?g) =
       Some (JsonText (JObj ?env))"
    "\<not> put_fails ?s (account_id ?g, ''image_content_data'', image_digest ?g)"
    unfolding self by (simp_all add: sample_store_def)
  have doc: "map_of ?env ''document'' = Some (JObj ?doc)" by simp
  have empty: "map_of ?doc ''dockerfile'' = Some (JStr '''')" "\<not> truthy (JStr '''')"
    by simp_all
  have pre: "\<forall>x \<in> set ([] :: image_detail list). dockerfile x = None \<or> dockerfile x = Some []"
    by simp
  have b: "dockerfile \<lparr>dockerfile = Some ''RlJPTSBzY3JhdGNo''\<rparr> = Some ''RlJPTSBzY3JhdGNo''"
    "''RlJPTSBzY3JhdGNo'' \<noteq> []"
    by simp_all
  have d: "decode_dockerfile ?e ''RlJPTSBzY3JhdGNo'' = Inr ''FROM scratch''"
    by (simp add: sample_env_def sample_decode_def)
  have f: "make_image_content_response ?e (Some ''dockerfile'') (JStr ''FROM scratch'') =
      Inr (JStr ''FROM scratch'')"
    by (simp add: sample_env_def sample_formatter_def)
  have ds: "dict_set ?doc ''dockerfile'' (JStr ''FROM scratch'') =
      [(''os'', JObj []), (''dockerfile'', JStr ''FROM scratch'')]"
    by simp
  note t = dockerfile_migration_persisted
    [OF db st s(1,2) doc self(3) empty r(3,4) pre b d r(1) s(3)]
  have c1: "fst (get ?e Dockerfile ?g False ?s) = Inr (JStr ''FROM scratch'')"
    using t [THEN conjunct1] f by simp
  have c2: "objects (snd (get ?e Dockerfile ?g False ?s))
      (''admin'', ''image_content_data'', ''sha256:aa'') =
      Some (JsonText (JObj [(''document'',
             JObj [(''os'', JObj []), (''dockerfile'', JStr ''FROM scratch'')])]))"
    using t [THEN conjunct2, THEN conjunct1] unfolding ds self by simp
  have c3: "fst (get ?e Dockerfile ?g False (snd (get ?e Dockerfile ?g False ?s))) =
      Inr (JStr ''FROM scratch'')"
    using t [THEN conjunct2, THEN conjunct2, THEN conjunct2, THEN conjunct2] c1 by simp
  show ?thesis by (intro conjI c1 c2 c3)
qed

text \<open>
  C1 as stated fails. The record has the mode \<open>Actual\<close> and one entry with a body that
  decodes, and the stored document has no \<open>dockerfile\<close> key: the presence check of \<open>get\<close>
  rejects the request for \<open>dockerfile\<close> before the hook runs. \<open>get\<close> fails with
  \<open>BadRequest\<close>, and the store has seen the fetch only: nothing is written.
\<close>

theorem dockerfile_absent_key_not_migrated:
  "decode_dockerfile (sample_env (sample_db (sample_report ''sha256:aa'' ''analyzed'' (Some ''Actual'')
        [\<lparr>dockerfile = Some ''RlJPTSBzY3JhdGNo''\<rparr>]))) ''RlJPTSBzY3JhdGNo'' =
     Inr ''FROM scratch'' \<and>
   get (sample_env (sample_db (sample_report ''sha256:aa'' ''analyzed'' (Some ''Actual'')
          [\<lparr>dockerfile = Some ''RlJPTSBzY3JhdGNo''\<rparr>])))
     Dockerfile (ImageContentGetter_init ''admin'' ''dockerfile'' ''sha256:aa'') False
     (sample_store [(''admin'', ''image_content_data'', ''sha256:aa'') \<mapsto>
        JsonText (JObj [(''document'', JObj [(''os'', JObj [])])])]) =
     (Inl (BadRequest
             ''image content of type (dockerfile) was not an available type at analysis time for this image''
             \<lparr>detail_account_id = ''admin'', detail_content_type = Some ''dockerfile'',
              detail_image_digest = ''sha256:aa''\<rparr>),
      (sample_store [(''admin'', ''image_content_data'', ''sha256:aa'') \<mapsto>
        JsonText (JObj [(''document'', JObj [(''os'', JObj [])])])])
       \<lparr>calls := [StoreGet (''admin'', ''image_content_data'', ''sha256:aa'')]\<rparr>)"
proof -
  let ?g = "ImageContentGetter_init ''admin'' ''dockerfile'' ''sha256:aa''"
  let ?doc = "[(''os'', JObj [])]"
  let ?env = "[(''document'', JObj ?doc)]"
  let ?s = "sample_store [(''admin'', ''image_content_data'', ''sha256:aa'') \<mapsto>
      JsonText (JObj ?env)]"
  let ?r = "sample_report ''sha256:aa'' ''analyzed'' (Some ''Actual'')
          [\<lparr>dockerfile = Some ''RlJPTSBzY3JhdGNo''\<rparr>]"
  let ?e = "sample_env (sample_db ?r)"
  have self: "account_id ?g = ''admin''" "image_digest ?g = ''sha256:aa''"
    "content_type ?g = Some ''dockerfile''"
    by (simp_all add: ImageContentGetter_init_def)
  have db: "db_catalog_image_get ?e (image_digest ?g) (account_id ?g) = Some ?r"
    unfolding self by (simp add: sample_env_def sample_db_def sample_report_def)
  have st: "verify_analysis_status ?e ?g ?r False = Inr ()"
    by (simp add: verify_analysis_status_def sample_env_def sample_report_def)
  have s: "\<not> get_fails ?s (account_id ?g, ''image_content_data'', image_digest ?g)"
    "objects ?s (account_id ?g, ''image_content_data'', image_digest ?g) =
       Some (JsonText (JObj ?env))"
    "calls ?s = []"
    unfolding self by (simp_all add: sample_store_def)
  have doc: "map_of ?env ''document'' = Some (JObj ?doc)" by simp
  have fetch: "get_image_content_data ?e Dockerfile ?g (image_digest ?g) ?s =
      (Inr (JObj ?doc), ?s\<lparr>calls := calls ?s @
         [StoreGet (account_id ?g, ''image_content_data'', image_digest ?g)]\<rparr>)"
    by (rule get_image_content_data_ok [OF _ s(1,2) doc]) simp
  have absent: "''dockerfile'' \<notin> fst ` set ?doc" by simp
  have d: "decode_dockerfile ?e ''RlJPTSBzY3JhdGNo'' = Inr ''FROM scratch''"
    by (simp add: sample_env_def sample_decode_def)
  have g: "get ?e Dockerfile ?g False ?s =
     (Inl (BadRequest
             ''image content of type (dockerfile) was not an available type at analysis time for this image''
             \<lparr>detail_account_id = ''admin'', detail_content_type = Some ''dockerfile'',
              detail_image_digest = ''sha256:aa''\<rparr>),
      ?s\<lparr>calls := [StoreGet (''admin'', ''image_content_data'', ''sha256:aa'')]\<rparr>)"
    using get_absent_type [OF db st fetch _ self(3) absent] unfolding s(3) self by simp
  show ?thesis using d g by (rule conjI)
qed

text \<open>
  C10, as amended: for a request of the Dockerfile getter for the type \<open>dockerfile\<close>.
  A document without the key \<open>dockerfile\<close> is rejected by the presence check with
  \<open>BadRequest\<close>, the store having seen the fetch only. Whenever \<open>get\<close> leaves the store in
  any other state than the one after the fetch, the document holds the key \<open>dockerfile\<close>
  with a falsy value. And a document with such an entry passes the presence check and
  reaches the migration: with the mode \<open>Actual\<close> and a body that decodes, the write of
  the migrated document is the second call on the store.
\<close>

theorem dockerfile_migration_reachability:
  assumes db: "db_catalog_image_get e (image_digest self) (account_id self) = Some report"
    and st: "verify_analysis_status e self report allow = Inr ()"
    and nofail: "\<not> get_fails s (account_id self, ''image_content_data'', image_digest self)"
    and obj: "objects s (account_id self, ''image_content_data'', image_digest self) =
                Some (JsonText (JObj envelope))"
    and doc: "map_of envelope ''document'' = Some (JObj doc)"
    and ct: "content_type self = Some ''dockerfile''"
  shows "(''dockerfile'' \<notin> fst ` set doc \<longrightarrow>
            get e Dockerfile self allow s =
              (Inl (BadRequest
                      ''image content of type (dockerfile) was not an available type at analysis time for this image''
                      \<lparr>detail_account_id = account_id self,
                       detail_content_type = Some ''dockerfile'',
                       detail_image_digest = image_digest self\<rparr>),
               s\<lparr>calls := calls s @
                  [StoreGet (account_id self, ''image_content_data'', image_digest self)]\<rparr>)) \<and>
         (snd (get e Dockerfile self allow s) \<noteq>
            s\<lparr>calls := calls s @
               [StoreGet (account_id self, ''image_content_data'', image_digest self)]\<rparr> \<longrightarrow>
            (\<exists>q. map_of doc ''dockerfile'' = Some q \<and> \<not> truthy q)) \<and>
         (\<forall>q pre d post body decoded.
            map_of doc ''dockerfile'' = Some q \<and> \<not> truthy q \<and>
            dockerfile_mode report = Some ''Actual'' \<and>
            image_detail report = pre @ d # post \<and>
            (\<forall>x \<in> set pre. dockerfile x = None \<or> dockerfile x = Some []) \<and>
            dockerfile d = Some body \<and> body \<noteq> [] \<and>
            decode_dockerfile e body = Inr decoded \<longrightarrow>
            calls (snd (get e Dockerfile self allow s)) =
              calls s @
                [StoreGet (account_id self, ''image_content_data'', image_digest self),
                 StorePut (account_id self, ''image_content_data'', imageDigest report)
                   (JsonText (JObj [(''document'',
                      JObj (dict_set doc ''dockerfile'' (JStr decoded)))]))])"
proof -
  let ?k = "(account_id self, ''image_content_data'', image_digest self)"
  let ?s1 = "s\<lparr>calls := calls s @ [StoreGet ?k]\<rparr>"
  have fetch: "get_image_content_data e Dockerfile self (image_digest self) s = (Inr (JObj doc), ?s1)"
    by (rule get_image_content_data_ok [OF _ nofail obj doc]) simp
  have absent: "get e Dockerfile self allow s =
      (Inl (BadRequest
              ''image content of type (dockerfile) was not an available type at analysis time for this image''
              \<lparr>detail_account_id = account_id self,
               detail_content_type = Some ''dockerfile'',
               detail_image_digest = image_digest self\<rparr>), ?s1)"
    if "''dockerfile'' \<notin> fst ` set doc"
    using get_absent_type [OF db st fetch _ ct that] by simp
  have only: "\<exists>q. map_of doc ''dockerfile'' = Some q \<and> \<not> truthy q"
    if changed: "snd (get e Dockerfile self allow s) \<noteq> ?s1"
  proof (cases "map_of doc ''dockerfile''")
    case None
    then have "''dockerfile'' \<notin> fst ` set doc"
      by (simp add: map_of_eq_None_iff)
    then show ?thesis using absent changed by simp
  next
    case (Some q)
    show ?thesis
    proof (cases "truthy q")
      case True
      then show ?thesis
        using get_dockerfile_stored [OF db st nofail obj doc ct Some Some True] changed by simp
    next
      case False
      then show ?thesis using Some by simp
    qed
  qed
  have reach: "calls (snd (get e Dockerfile self allow s)) =
      calls s @ [StoreGet ?k,
         StorePut (account_id self, ''image_content_data'', imageDigest report)
           (JsonText (JObj [(''document'', JObj (dict_set doc ''dockerfile'' (JStr decoded)))]))]"
    if q: "map_of doc ''dockerfile'' = Some q" "\<not> truthy q"
      and mode: "dockerfile_mode report = Some ''Actual''"
      and details: "image_detail report = pre @ d # post"
      and pre: "\<forall>x \<in> set pre. dockerfile x = None \<or> dockerfile x = Some []"
      and body: "dockerfile d = Some body" "body \<noteq> []"
      and dec: "decode_dockerfile e body = Inr decoded"
    for q pre d post body decoded
  proof -
    have key: "''dockerfile'' \<in> fst ` set doc"
      using map_of_SomeD [OF q(1)] by (rule image_eqI [of _ fst, rotated]) simp
    have g: "get e Dockerfile self allow s = hydrate_dockerfile e self (JObj doc) report ?s1"
      by (rule get_dockerfile_present [OF db st nofail obj doc ct key])
    have h: "hydrate_dockerfile e self (JObj doc) report ?s1 =
        (case migrate_details e self report (pre @ d # post) doc ?s1 of
           (err, doc', s') \<Rightarrow> (make_response e self (JObj doc'), s'))"
      using q mode details by (simp add: hydrate_dockerfile_def)
    show ?thesis
    proof (cases "put_fails ?s1 (account_id self, ''image_content_data'', imageDigest report)")
      case True
      show ?thesis
        unfolding g h migrate_details_put_fails [OF pre body dec True] by simp
    next
      case False
      show ?thesis
        unfolding g h migrate_details_written [OF pre body dec False] by simp
    qed
  qed
  show ?thesis
  proof (intro conjI impI allI)
    assume "''dockerfile'' \<notin> fst ` set doc"
    then show "get e Dockerfile self allow s =
      (Inl (BadRequest
              ''image content of type (dockerfile) was not an available type at analysis time for this image''
              \<lparr>detail_account_id = account_id self,
               detail_content_type = Some ''dockerfile'',
               detail_image_digest = image_digest self\<rparr>), ?s1)"
      by (rule absent)
  next
    assume "snd (get e Dockerfile self allow s) \<noteq> ?s1"
    then show "\<exists>q. map_of doc ''dockerfile'' = Some q \<and> \<not> truthy q"
      by (rule only)
  next
    fix q pre d post body decoded
    assume a: "map_of doc ''dockerfile'' = Some q \<and> \<not> truthy q \<and>
            dockerfile_mode report = Some ''Actual'' \<and>
            image_detail report = pre @ d # post \<and>
            (\<forall>x \<in> set pre. dockerfile x = None \<or> dockerfile x = Some []) \<and>
            dockerfile d = Some body \<and> body \<noteq> [] \<and>
            decode_dockerfile e body = Inr decoded"
    show "calls (snd (get e Dockerfile self allow s)) =
      calls s @ [StoreGet ?k,
         StorePut (account_id self, ''image_content_data'', imageDigest report)
           (JsonText (JObj [(''document'', JObj (dict_set doc ''dockerfile'' (JStr decoded)))]))]"
      by (rule reach [of q pre d post body decoded]) (use a in simp_all)
  qed
qed

theorem dockerfile_migration_reachability_witness:
  "calls (snd (get (sample_env (sample_db (sample_report ''sha256:aa'' ''analyzed'' (Some ''Actual'')
               [\<lparr>dockerfile = Some ''RlJPTSBzY3JhdGNo''\<rparr>])))
          Dockerfile (ImageContentGetter_init ''admin'' ''dockerfile'' ''sha256:aa'') False
          (sample_store [(''admin'', ''image_content_data'', ''sha256:aa'') \<mapsto>
             JsonText (JObj [(''document'', JObj [(''dockerfile'', JNull)])])]))) =
     [StoreGet (''admin'', ''image_content_data'', ''sha256:aa''),
      StorePut (''admin'', ''image_content_data'', ''sha256:aa'')
        (JsonText (JObj [(''document'', JObj [(''dockerfile'', JStr ''FROM scratch'')])]))]"
proof -
  let ?g = "ImageContentGetter_init ''admin'' ''dockerfile'' ''sha256:aa''"
  let ?doc = "[(''dockerfile'', JNull)]"
  let ?env = "[(''document'', JObj ?doc)]"
  let ?s = "sample_store [(''admin'', ''image_content_data'', ''sha256:aa'') \<mapsto>
      JsonText (JObj ?env)]"
  let ?r = "sample_report ''sha256:aa'' ''analyzed'' (Some ''Actual'')
          [\<lparr>dockerfile = Some ''RlJPTSBzY3JhdGNo''\<rparr>]"
  let ?e = "sample_env (sample_db ?r)"
  have self: "account_id ?g = ''admin''" "image_digest ?g = ''sha256:aa''"
    "content_type ?g = Some ''dockerfile''"
    by (simp_all add: ImageContentGetter_init_def)
  have r: "imageDigest ?r = ''sha256:aa''" "analysis_status ?r = ''analyzed''"
    "dockerfile_mode ?r = Some ''Actual''"
    "image_detail ?r = [] @ \<lparr>dockerfile = Some ''RlJPTSBzY3JhdGNo''\<rparr> # []"
    by (simp_all add: sample_report_def)
  have db: "db_catalog_image_get ?e (image_digest ?g) (account_id ?g) = Some ?r"
    unfolding self by (simp add: sample_env_def sample_db_def sample_report_def)
  have st: "verify_analysis_status ?e ?g ?r False = Inr ()"
    using r(2) by (simp add: verify_analysis_status_def sample_env_def)
  have s: "\<not> get_fails ?s (account_id ?g, ''image_content_data'', image_digest ?g)"
    "objects ?s (account_id ?g, ''image_content_data'', image_digest ?g) =
       Some (JsonText (JObj ?env))"
    "calls ?s = []"
    unfolding self by (simp_all add: sample_store_def)
  have doc: "map_of ?env ''document'' = Some (JObj ?doc)" by simp
  have d: "decode_dockerfile ?e ''RlJPTSBzY3JhdGNo'' = Inr ''FROM scratch''"
    by (simp add: sample_env_def sample_decode_def)
  have c: "map_of ?doc ''dockerfile'' = Some JNull \<and> \<not> truthy JNull \<and>
            dockerfile_mode ?r = Some ''Actual'' \<and>
            image_detail ?r = [] @ \<lparr>dockerfile = Some ''RlJPTSBzY3JhdGNo''\<rparr> # [] \<and>
            (\<forall>x \<in> set ([] :: image_detail list). dockerfile x = None \<or> dockerfile x = Some []) \<and>
            dockerfile \<lparr>dockerfile = Some ''RlJPTSBzY3JhdGNo''\<rparr> = Some ''RlJPTSBzY3JhdGNo'' \<and>
            ''RlJPTSBzY3JhdGNo'' \<noteq> [] \<and>
            decode_dockerfile ?e ''RlJPTSBzY3JhdGNo'' = Inr ''FROM scratch''"
    using r(3,4) d by simp
  note t = dockerfile_migration_reachability [OF db st s(1,2) doc self(3),
      THEN conjunct2, THEN conjunct2, rule_format, OF c]
  show ?thesis
    using t unfolding s(3) self r(1) by simp
qed

text \<open>
  C10 as stated fails for a request of the Dockerfile getter for another type. The
  document below has no \<open>dockerfile\<close> key at all; the request for \<open>os\<close> passes the
  presence check, the hook finds no truthy \<open>dockerfile\<close> entry and migrates: the
  decoded text is written back, and the \<open>os\<close> payload is returned.
\<close>

theorem dockerfile_getter_other_type_migrates:
  "fst (get (sample_env (sample_db (sample_report ''sha256:aa'' ''analyzed'' (Some ''Actual'')
               [\<lparr>dockerfile = Some ''RlJPTSBzY3JhdGNo''\<rparr>])))
          Dockerfile (ImageContentGetter_init ''admin'' ''os'' ''sha256:aa'') False
          (sample_store [(''admin'', ''image_content_data'', ''sha256:aa'') \<mapsto>
             JsonText (JObj [(''document'', JObj [(''os'', JObj [(''musl'', JStr ''1.2.3'')])])])])) =
     Inr (JArr [JObj [(''musl'', JStr ''1.2.3'')]]) \<and>
   calls (snd (get (sample_env (sample_db (sample_report ''sha256:aa'' ''analyzed'' (Some ''Actual'')
               [\<lparr>dockerfile = Some ''RlJPTSBzY3JhdGNo''\<rparr>])))
          Dockerfile (ImageContentGetter_init ''admin'' ''os'' ''sha256:aa'') False
          (sample_store [(''admin'', ''image_content_data'', ''sha256:aa'') \<mapsto>
             JsonText (JObj [(''document'', JObj [(''os'', JObj [(''musl'', JStr ''1.2.3'')])])])]))) =
     [StoreGet (''admin'', ''image_content_data'', ''sha256:aa''),
      StorePut (''admin'', ''image_content_data'', ''sha256:aa'')
        (JsonText (JObj [(''document'',
           JObj [(''os'', JObj [(''musl'', JStr ''1.2.3'')]),
                 (''dockerfile'', JStr ''FROM scratch'')])]))] \<and>
   map_of [(''os'', JObj [(''musl'', JStr ''1.2.3'')])] ''dockerfile'' = None"
proof -
  let ?g = "ImageContentGetter_init ''admin'' ''os'' ''sha256:aa''"
  let ?doc = "[(''os'', JObj [(''musl'', JStr ''1.2.3'')])]"
  let ?env = "[(''document'', JObj ?doc)]"
  let ?s = "sample_store [(''admin'', ''image_content_data'', ''sha256:aa'') \<mapsto>
      JsonText (JObj ?env)]"
  let ?r = "sample_report ''sha256:aa'' ''analyzed'' (Some ''Actual'')
          [\<lparr>dockerfile = Some ''RlJPTSBzY3JhdGNo''\<rparr>]"
  let ?e = "sample_env (sample_db ?r)"
  have self: "account_id ?g = ''admin''" "image_digest ?g = ''sha256:aa''"
    "content_type ?g = Some ''os''"
    by (simp_all add: ImageContentGetter_init_def)
  have r: "imageDigest ?r = ''sha256:aa''" "analysis_status ?r = ''analyzed''"
    "dockerfile_mode ?r = Some ''Actual''"
    "image_detail ?r = [] @ \<lparr>dockerfile = Some ''RlJPTSBzY3JhdGNo''\<rparr> # []"
    by (simp_all add: sample_report_def)
  have db: "db_catalog_image_get ?e (image_digest ?g) (account_id ?g) = Some ?r"
    unfolding self by (simp add: sample_env_def sample_db_def sample_report_def)
  have st: "verify_analysis_status ?e ?g ?r False = Inr ()"
    using r(2) by (simp add: verify_analysis_status_def sample_env_def)
  have s: "\<not> get_fails ?s (account_id ?g, ''image_content_data'', image_digest ?g)"
    "objects ?s (account_id ?g, ''image_content_data'', image_digest ?g) =
       Some (JsonText (JObj ?env))"
    "calls ?s = []"
    "\<not> put_fails ?s (account_id ?g, ''image_content_data'', imageDigest ?r)"
    unfolding self by (simp_all add: sample_store_def)
  have doc: "map_of ?env ''document'' = Some (JObj ?doc)" by simp
  have p: "map_of ?doc ''os'' = Some (JObj [(''musl'', JStr ''1.2.3'')])" by simp
  have nodf: "\<forall>q. map_of ?doc ''dockerfile'' = Some q \<longrightarrow> \<not> truthy q" by simp
  have pre: "\<forall>x \<in> set ([] :: image_detail list). dockerfile x = None \<or> dockerfile x = Some []"
    by simp
  have b: "dockerfile \<lparr>dockerfile = Some ''RlJPTSBzY3JhdGNo''\<rparr> = Some ''RlJPTSBzY3JhdGNo''"
    "''RlJPTSBzY3JhdGNo'' \<noteq> []"
    by simp_all
  have d: "decode_dockerfile ?e ''RlJPTSBzY3JhdGNo'' = Inr ''FROM scratch''"
    by (simp add: sample_env_def sample_decode_def)
  have f: "make_image_content_response ?e (Some ''os'') (JObj [(''musl'', JStr ''1.2.3'')]) =
      Inr (JArr [JObj [(''musl'', JStr ''1.2.3'')]])"
    by (simp add: sample_env_def sample_formatter_def)
  note t = get_dockerfile_migrates [OF db st s(1,2) doc self(3) p nodf r(3,4) pre b d s(4)]
  have c1: "fst (get ?e Dockerfile ?g False ?s) = Inr (JArr [JObj [(''musl'', JStr ''1.2.3'')]])"
    unfolding t using f by simp
  have c2: "calls (snd (get ?e Dockerfile ?g False ?s)) =
     [StoreGet (''admin'', ''image_content_data'', ''sha256:aa''),
      StorePut (''admin'', ''image_content_data'', ''sha256:aa'')
        (JsonText (JObj [(''document'',
           JObj [(''os'', JObj [(''musl'', JStr ''1.2.3'')]),
                 (''dockerfile'', JStr ''FROM scratch'')])]))]"
    unfolding t s(3) self r(1) by simp
  have c3: "map_of ?doc ''dockerfile'' = None" by simp
  show ?thesis by (intro conjI c1 c2 c3)
qed

section \<open>The presence check\<close>

lemma migrate_details_document:
  "fst (snd (migrate_details e self report ds doc s)) = doc \<or>
   (\<exists>pre d post b decoded.
      ds = pre @ d # post \<and>
      (\<forall>x \<in> set pre. dockerfile x = None \<or> dockerfile x = Some []) \<and>
      dockerfile d = Some b \<and> b \<noteq> [] \<and> decode_dockerfile e b = Inr decoded \<and>
      fst (snd (migrate_details e self report ds doc s)) =
        dict_set doc ''dockerfile'' (JStr decoded))"
proof (cases "\<exists>x \<in> set ds. \<exists>b. dockerfile x = Some b \<and> b \<noteq> []")
  case False
  then have "\<forall>x \<in> set ds. dockerfile x = None \<or> dockerfile x = Some []"
    by (metis option.exhaust)
  then show ?thesis by (simp add: migrate_details_no_body)
next
  case True
  from split_list_first_prop [OF True] obtain pre d post where
    ds: "ds = pre @ d # post" and
    d: "\<exists>b. dockerfile d = Some b \<and> b \<noteq> []" and
    pre0: "\<forall>y \<in> set pre. \<not> (\<exists>b. dockerfile y = Some b \<and> b \<noteq> [])"
    by blast
  have pre: "\<forall>x \<in> set pre. dockerfile x = None \<or> dockerfile x = Some []"
    using pre0 by (metis option.exhaust)
  from d obtain b where b: "dockerfile d = Some b" "b \<noteq> []" by blast
  show ?thesis
  proof (cases "decode_dockerfile e b")
    case (Inl err)
    show ?thesis
      unfolding ds migrate_details_decode_fails [OF pre b Inl] by simp
  next
    case (Inr decoded)
    have "fst (snd (migrate_details e self report (pre @ d # post) doc s)) =
        dict_set doc ''dockerfile'' (JStr decoded)"
    proof (cases "put_fails s (account_id self, ''image_content_data'', imageDigest report)")
      case True
      show ?thesis unfolding migrate_details_put_fails [OF pre b Inr True] by simp
    next
      case False
      show ?thesis unfolding migrate_details_written [OF pre b Inr False] by simp
    qed
    then show ?thesis using ds pre b Inr by blast
  qed
qed

lemma migrate_details_decoded:
  assumes "\<forall>x \<in> set pre. dockerfile x = None \<or> dockerfile x = Some []"
    and "dockerfile d = Some body" and "body \<noteq> []"
    and "decode_dockerfile e body = Inr decoded"
  shows "fst (snd (migrate_details e self report (pre @ d # post) doc s)) =
           dict_set doc ''dockerfile'' (JStr decoded)"
proof (cases "put_fails s (account_id self, ''image_content_data'', imageDigest report)")
  case True
  show ?thesis unfolding migrate_details_put_fails [OF assms True] by simp
next
  case False
  show ?thesis unfolding migrate_details_written [OF assms False] by simp
qed

lemma hydrate_dockerfile_migrating:
  assumes "\<forall>q. map_of doc ''dockerfile'' = Some q \<longrightarrow> \<not> truthy q"
    and "dockerfile_mode report = Some ''Actual''"
  shows "fst (hydrate_dockerfile e self (JObj doc) report s) =
           make_response e self
             (JObj (fst (snd (migrate_details e self report (image_detail report) doc s))))"
proof -
  have nt: "\<not> (case map_of doc ''dockerfile'' of None \<Rightarrow> False | Some q \<Rightarrow> truthy q)"
    using assms(1) by (cases "map_of doc ''dockerfile''") auto
  show ?thesis
    using nt assms(2) by (simp add: hydrate_dockerfile_def split: prod.splits)
qed

lemma hydrate_dockerfile_not_migrating:
  assumes "(\<exists>q. map_of doc ''dockerfile'' = Some q \<and> truthy q) \<or>
           dockerfile_mode report \<noteq> Some ''Actual''"
  shows "hydrate_dockerfile e self (JObj doc) report s = (make_response e self (JObj doc), s)"
  using assms by (auto simp: hydrate_dockerfile_def)


text \<open>
  C6, as amended. For every class that checks the presence of the requested type (all
  but the multi-type getter), once the record is found, the state check passed and the
  fetch returned an object: when the requested type is not a key of the document,
  \<open>get\<close> fails with \<open>BadRequest\<close>. When the type is a key with an empty (falsy) payload
  and the formatter turns empty payloads into the empty result, \<open>get\<close> succeeds with
  the empty result, with one exception: the Dockerfile getter asked for \<open>dockerfile\<close>
  on a record of mode \<open>Actual\<close> whose first entry of \<open>image_detail\<close> with a body has one
  that decodes to a non-empty text. Whenever that body decodes, \<open>get\<close> returns what the
  formatter makes of the decoded text.
\<close>

theorem get_presence_check:
  assumes db: "db_catalog_image_get e (image_digest self) (account_id self) = Some report"
    and st: "verify_analysis_status e self report allow = Inr ()"
    and fetch: "get_image_content_data e v self (image_digest self) s = (Inr (JObj doc), s1)"
    and v: "v \<noteq> Multi"
    and ct: "content_type self = Some ct"
    and fmt_empty: "\<forall>c p. \<not> truthy p \<longrightarrow> make_image_content_response e c p = Inr (JArr [])"
  shows "(ct \<notin> fst ` set doc \<longrightarrow>
            get e v self allow s =
              (Inl (BadRequest
                      (''image content of type ('' @ ct @
                       '') was not an available type at analysis time for this image'')
                      \<lparr>detail_account_id = account_id self,
                       detail_content_type = Some ct,
                       detail_image_digest = image_digest self\<rparr>), s1)) \<and>
         (\<forall>p. map_of doc ct = Some p \<and> \<not> truthy p \<and>
              \<not> (v = Dockerfile \<and> ct = ''dockerfile'' \<and>
                 dockerfile_mode report = Some ''Actual'' \<and>
                 (\<exists>pre d post body decoded.
                    image_detail report = pre @ d # post \<and>
                    (\<forall>x \<in> set pre. dockerfile x = None \<or> dockerfile x = Some []) \<and>
                    dockerfile d = Some body \<and> body \<noteq> [] \<and>
                    decode_dockerfile e body = Inr decoded \<and> decoded \<noteq> [])) \<longrightarrow>
            fst (get e v self allow s) = Inr (JArr [])) \<and>
         (\<forall>p pre d post body decoded.
            map_of doc ct = Some p \<and> \<not> truthy p \<and>
            v = Dockerfile \<and> ct = ''dockerfile'' \<and>
            dockerfile_mode report = Some ''Actual'' \<and>
            image_detail report = pre @ d # post \<and>
            (\<forall>x \<in> set pre. dockerfile x = None \<or> dockerfile x = Some []) \<and>
            dockerfile d = Some body \<and> body \<noteq> [] \<and>
            decode_dockerfile e body = Inr decoded \<longrightarrow>
            fst (get e v self allow s) =
              make_image_content_response e (Some ''dockerfile'') (JStr decoded))"
proof (intro conjI impI allI)
  assume "ct \<notin> fst ` set doc"
  then show "get e v self allow s =
      (Inl (BadRequest
              (''image content of type ('' @ ct @
               '') was not an available type at analysis time for this image'')
              \<lparr>detail_account_id = account_id self,
               detail_content_type = Some ct,
               detail_image_digest = image_digest self\<rparr>), s1)"
    by (rule get_absent_type [OF db st fetch v ct])
next
  fix p
  assume a: "map_of doc ct = Some p \<and> \<not> truthy p \<and>
      \<not> (v = Dockerfile \<and> ct = ''dockerfile'' \<and>
         dockerfile_mode report = Some ''Actual'' \<and>
         (\<exists>pre d post body decoded.
            image_detail report = pre @ d # post \<and>
            (\<forall>x \<in> set pre. dockerfile x = None \<or> dockerfile x = Some []) \<and>
            dockerfile d = Some body \<and> body \<noteq> [] \<and>
            decode_dockerfile e body = Inr decoded \<and> decoded \<noteq> []))"
  then have p: "map_of doc ct = Some p" and np: "\<not> truthy p" by simp_all
  have key: "ct \<in> fst ` set doc"
    using map_of_SomeD [OF p] by (rule image_eqI [of _ fst, rotated]) simp
  have mr: "make_response e self (JObj doc) = make_image_content_response e (Some ct) p"
    by (rule make_response_present [OF ct p])
  have empty: "make_image_content_response e (Some ct) p = Inr (JArr [])"
    using fmt_empty np by simp
  show "fst (get e v self allow s) = Inr (JArr [])"
  proof (cases "v = Dockerfile")
    case False
    then have n: "normalize_to_user_format_on_load v" "verify_content_type v"
      using v by (cases v; simp add: normalize_to_user_format_on_load_def verify_content_type_def)+
    have h: "hydrate_additional_data e v self x report s1 = (Inr x, s1)" for x
      using False v by (cases v) (simp_all add: hydrate_additional_data_def)
    show ?thesis
      using db st fetch n ct key mr h empty by (simp add: get_def)
  next
    case True
    have g: "get e v self allow s = hydrate_dockerfile e self (JObj doc) report s1"
      using db st fetch ct key True
      by (simp add: get_def verify_content_type_def normalize_to_user_format_on_load_def
          hydrate_additional_data_def)
    show ?thesis
    proof (cases "(\<exists>q. map_of doc ''dockerfile'' = Some q \<and> truthy q) \<or>
        dockerfile_mode report \<noteq> Some ''Actual''")
      case True
      show ?thesis
        unfolding g hydrate_dockerfile_not_migrating [OF True] using mr empty by simp
    next
      case False
      then have nodf: "\<forall>q. map_of doc ''dockerfile'' = Some q \<longrightarrow> \<not> truthy q"
        and mode: "dockerfile_mode report = Some ''Actual''"
        by auto
      let ?doc' = "fst (snd (migrate_details e self report (image_detail report) doc s1))"
      have h: "fst (get e v self allow s) = make_response e self (JObj ?doc')"
        unfolding g by (rule hydrate_dockerfile_migrating [OF nodf mode])
      have same: "\<exists>p'. map_of ?doc' ct = Some p' \<and> \<not> truthy p'"
      proof (cases "?doc' = doc")
        case True
        then show ?thesis using p np by simp
      next
        case False
        then obtain pre d post b decoded where
          m: "image_detail report = pre @ d # post"
          "\<forall>x \<in> set pre. dockerfile x = None \<or> dockerfile x = Some []"
          "dockerfile d = Some b" "b \<noteq> []" "decode_dockerfile e b = Inr decoded"
          "?doc' = dict_set doc ''dockerfile'' (JStr decoded)"
          using migrate_details_document [of e self report "image_detail report" doc s1]
          by blast
        show ?thesis
        proof (cases "ct = ''dockerfile''")
          case False
          then show ?thesis unfolding m(6) using p np by (simp add: map_of_dict_set)
        next
          case True
          have "decoded = []"
            using a \<open>v = Dockerfile\<close> True mode m(1-5) by blast
          then show ?thesis unfolding m(6) using True by (simp add: map_of_dict_set)
        qed
      qed
      then obtain p' where p': "map_of ?doc' ct = Some p'" "\<not> truthy p'" by blast
      have "make_image_content_response e (Some ct) p' = Inr (JArr [])"
        using fmt_empty p'(2) by simp
      then show ?thesis
        unfolding h using make_response_present [OF ct p'(1)] by simp
    qed
  qed
next
  fix p pre d post body decoded
  assume a: "map_of doc ct = Some p \<and> \<not> truthy p \<and>
      v = Dockerfile \<and> ct = ''dockerfile'' \<and>
      dockerfile_mode report = Some ''Actual'' \<and>
      image_detail report = pre @ d # post \<and>
      (\<forall>x \<in> set pre. dockerfile x = None \<or> dockerfile x = Some []) \<and>
      dockerfile d = Some body \<and> body \<noteq> [] \<and>
      decode_dockerfile e body = Inr decoded"
  note p = a [THEN conjunct1]
  note np = a [THEN conjunct2, THEN conjunct1]
  note vd = a [THEN conjunct2, THEN conjunct2, THEN conjunct1]
  note cd = a [THEN conjunct2, THEN conjunct2, THEN conjunct2, THEN conjunct1]
  note mode = a [THEN conjunct2, THEN conjunct2, THEN conjunct2, THEN conjunct2,
      THEN conjunct1]
  note details = a [THEN conjunct2, THEN conjunct2, THEN conjunct2, THEN conjunct2,
      THEN conjunct2, THEN conjunct1]
  note pre = a [THEN conjunct2, THEN conjunct2, THEN conjunct2, THEN conjunct2,
      THEN conjunct2, THEN conjunct2, THEN conjunct1]
  note body1 = a [THEN conjunct2, THEN conjunct2, THEN conjunct2, THEN conjunct2,
      THEN conjunct2, THEN conjunct2, THEN conjunct2, THEN conjunct1]
  note body2 = a [THEN conjunct2, THEN conjunct2, THEN conjunct2, THEN conjunct2,
      THEN conjunct2, THEN conjunct2, THEN conjunct2, THEN conjunct2, THEN conjunct1]
  note dec = a [THEN conjunct2, THEN conjunct2, THEN conjunct2, THEN conjunct2,
      THEN conjunct2, THEN conjunct2, THEN conjunct2, THEN conjunct2, THEN conjunct2]
  note body = body1 body2
  have key: "ct \<in> fst ` set doc"
    using map_of_SomeD [OF p] by (rule image_eqI [of _ fst, rotated]) simp
  have g: "get e v self allow s = hydrate_dockerfile e self (JObj doc) report s1"
    using db st fetch ct key vd
    by (simp add: get_def verify_content_type_def normalize_to_user_format_on_load_def
        hydrate_additional_data_def)
  have nodf: "\<forall>q. map_of doc ''dockerfile'' = Some q \<longrightarrow> \<not> truthy q"
    using p np cd by simp
  have h: "fst (get e v self allow s) =
      make_response e self
        (JObj (fst (snd (migrate_details e self report (image_detail report) doc s1))))"
    unfolding g by (rule hydrate_dockerfile_migrating [OF nodf mode])
  have p': "map_of (dict_set doc ''dockerfile'' (JStr decoded)) ''dockerfile'' = Some (JStr decoded)"
    by (simp add: map_of_dict_set)
  have ct': "content_type self = Some ''dockerfile''" using ct cd by simp
  show "fst (get e v self allow s) =
      make_image_content_response e (Some ''dockerfile'') (JStr decoded)"
    unfolding h details migrate_details_decoded [OF pre body dec]
    by (rule make_response_present [OF ct' p'])
qed

theorem get_presence_check_witness:
  "get (sample_env (sample_db (sample_report ''sha256:aa'' ''analyzed'' None []))) Base
     (ImageContentGetter_init ''admin'' ''java'' ''sha256:aa'') False
     (sample_store [(''admin'', ''image_content_data'', ''sha256:aa'') \<mapsto>
        JsonText (JObj [(''document'', JObj [(''os'', JObj [])])])]) =
     (Inl (BadRequest
             ''image content of type (java) was not an available type at analysis time for this image''
             \<lparr>detail_account_id = ''admin'', detail_content_type = Some ''java'',
              detail_image_digest = ''sha256:aa''\<rparr>),
      (sample_store [(''admin'', ''image_content_data'', ''sha256:aa'') \<mapsto>
        JsonText (JObj [(''document'', JObj [(''os'', JObj [])])])])
       \<lparr>calls := [StoreGet (''admin'', ''image_content_data'', ''sha256:aa'')]\<rparr>) \<and>
   fst (get (sample_env (sample_db (sample_report ''sha256:aa'' ''analyzed'' None []))) Base
     (ImageContentGetter_init ''admin'' ''os'' ''sha256:aa'') False
     (sample_store [(''admin'', ''image_content_data'', ''sha256:aa'') \<mapsto>
        JsonText (JObj [(''document'', JObj [(''os'', JObj [])])])])) = Inr (JArr []) \<and>
   fst (get (sample_env (sample_db (sample_report ''sha256:aa'' ''analyzed'' (Some ''Actual'')
               [\<lparr>dockerfile = None\<rparr>, \<lparr>dockerfile = Some ''RlJPTSBzY3JhdGNo''\<rparr>])))
          Dockerfile (ImageContentGetter_init ''admin'' ''dockerfile'' ''sha256:aa'') False
          (sample_store [(''admin'', ''image_content_data'', ''sha256:aa'') \<mapsto>
             JsonText (JObj [(''document'', JObj [(''dockerfile'', JNull)])])])) =
     Inr (JStr ''FROM scratch'')"
proof -
  let ?doc = "[(''os'', JObj [])]"
  let ?env = "[(''document'', JObj ?doc)]"
  let ?s = "sample_store [(''admin'', ''image_content_data'', ''sha256:aa'') \<mapsto>
      JsonText (JObj ?env)]"
  let ?s1 = "?s\<lparr>calls := [StoreGet (''admin'', ''image_content_data'', ''sha256:aa'')]\<rparr>"
  let ?r = "sample_report ''sha256:aa'' ''analyzed'' None []"
  let ?e = "sample_env (sample_db ?r)"
  let ?ddoc = "[(''dockerfile'', JNull)]"
  let ?denv = "[(''document'', JObj ?ddoc)]"
  let ?ds = "sample_store [(''admin'', ''image_content_data'', ''sha256:aa'') \<mapsto>
      JsonText (JObj ?denv)]"
  let ?ds1 = "?ds\<lparr>calls := [StoreGet (''admin'', ''image_content_data'', ''sha256:aa'')]\<rparr>"
  let ?dr = "sample_report ''sha256:aa'' ''analyzed'' (Some ''Actual'')
      [\<lparr>dockerfile = None\<rparr>, \<lparr>dockerfile = Some ''RlJPTSBzY3JhdGNo''\<rparr>]"
  let ?de = "sample_env (sample_db ?dr)"
  have self: "account_id (ImageContentGetter_init ''admin'' c ''sha256:aa'') = ''admin''"
    "image_digest (ImageContentGetter_init ''admin'' c ''sha256:aa'') = ''sha256:aa''"
    "content_type (ImageContentGetter_init ''admin'' c ''sha256:aa'') = Some c" for c
    by (simp_all add: ImageContentGetter_init_def)
  have db: "db_catalog_image_get (sample_env (sample_db r))
      (image_digest (ImageContentGetter_init ''admin'' c ''sha256:aa''))
      (account_id (ImageContentGetter_init ''admin'' c ''sha256:aa'')) = Some r"
    if "imageDigest r = ''sha256:aa''" for c r
    using that unfolding self by (simp add: sample_env_def sample_db_def)
  have st: "verify_analysis_status (sample_env (sample_db r))
      (ImageContentGetter_init ''admin'' c ''sha256:aa'') r False = Inr ()"
    if "analysis_status r = ''analyzed''" for c r
    using that by (simp add: verify_analysis_status_def sample_env_def)
  have r: "imageDigest ?r = ''sha256:aa''" "analysis_status ?r = ''analyzed''"
    by (simp_all add: sample_report_def)
  have dr: "imageDigest ?dr = ''sha256:aa''" "analysis_status ?dr = ''analyzed''"
    "dockerfile_mode ?dr = Some ''Actual''"
    "image_detail ?dr = [\<lparr>dockerfile = None\<rparr>] @ \<lparr>dockerfile = Some ''RlJPTSBzY3JhdGNo''\<rparr> # []"
    by (simp_all add: sample_report_def)
  have s: "\<not> get_fails ?s (''admin'', ''image_content_data'', ''sha256:aa'')"
    "objects ?s (''admin'', ''image_content_data'', ''sha256:aa'') = Some (JsonText (JObj ?env))"
    "calls ?s = []"
    by (simp_all add: sample_store_def)
  have ds: "\<not> get_fails ?ds (''admin'', ''image_content_data'', ''sha256:aa'')"
    "objects ?ds (''admin'', ''image_content_data'', ''sha256:aa'') = Some (JsonText (JObj ?denv))"
    "calls ?ds = []"
    by (simp_all add: sample_store_def)
  have doc: "map_of ?env ''document'' = Some (JObj ?doc)" by simp
  have ddoc: "map_of ?denv ''document'' = Some (JObj ?ddoc)" by simp
  have fetch: "get_image_content_data ?e Base (ImageContentGetter_init ''admin'' c ''sha256:aa'')
      (image_digest (ImageContentGetter_init ''admin'' c ''sha256:aa'')) ?s = (Inr (JObj ?doc), ?s1)"
    for c
    using get_image_content_data_ok
      [of Base ?s "ImageContentGetter_init ''admin'' c ''sha256:aa''" "''sha256:aa''" ?env
        "JObj ?doc" ?e]
      s(1,2) doc
    unfolding self s(3) by simp
  have dfetch: "get_image_content_data ?de Dockerfile
      (ImageContentGetter_init ''admin'' ''dockerfile'' ''sha256:aa'')
      (image_digest (ImageContentGetter_init ''admin'' ''dockerfile'' ''sha256:aa'')) ?ds =
      (Inr (JObj ?ddoc), ?ds1)"
    using get_image_content_data_ok
      [of Dockerfile ?ds "ImageContentGetter_init ''admin'' ''dockerfile'' ''sha256:aa''"
        "''sha256:aa''" ?denv "JObj ?ddoc" ?de]
      ds(1,2) ddoc
    unfolding self ds(3) by simp
  have fe: "\<forall>c p. \<not> truthy p \<longrightarrow>
      make_image_content_response (sample_env (sample_db r)) c p = Inr (JArr [])" for r
    by (simp add: sample_env_def sample_formatter_def)
  have absent: "''java'' \<notin> fst ` set ?doc" by simp
  have present: "map_of ?doc ''os'' = Some (JObj []) \<and> \<not> truthy (JObj []) \<and>
      \<not> (Base = Dockerfile \<and> ''os'' = ''dockerfile'' \<and>
         dockerfile_mode ?r = Some ''Actual'' \<and>
         (\<exists>pre d post body decoded.
            image_detail ?r = pre @ d # post \<and>
            (\<forall>x \<in> set pre. dockerfile x = None \<or> dockerfile x = Some []) \<and>
            dockerfile d = Some body \<and> body \<noteq> [] \<and>
            decode_dockerfile ?e body = Inr decoded \<and> decoded \<noteq> []))"
    by simp
  have d: "decode_dockerfile ?de ''RlJPTSBzY3JhdGNo'' = Inr ''FROM scratch''"
    by (simp add: sample_env_def sample_decode_def)
  have migr: "map_of ?ddoc ''dockerfile'' = Some JNull \<and> \<not> truthy JNull \<and>
      Dockerfile = Dockerfile \<and> ''dockerfile'' = ''dockerfile'' \<and>
      dockerfile_mode ?dr = Some ''Actual'' \<and>
      image_detail ?dr = [\<lparr>dockerfile = None\<rparr>] @ \<lparr>dockerfile = Some ''RlJPTSBzY3JhdGNo''\<rparr> # [] \<and>
      (\<forall>x \<in> set [\<lparr>dockerfile = None\<rparr>]. dockerfile x = None \<or> dockerfile x = Some []) \<and>
      dockerfile \<lparr>dockerfile = Some ''RlJPTSBzY3JhdGNo''\<rparr> = Some ''RlJPTSBzY3JhdGNo'' \<and>
      ''RlJPTSBzY3JhdGNo'' \<noteq> [] \<and>
      decode_dockerfile ?de ''RlJPTSBzY3JhdGNo'' = Inr ''FROM scratch''"
    using dr(3,4) d by simp
  have f: "make_image_content_response ?de (Some ''dockerfile'') (JStr ''FROM scratch'') =
      Inr (JStr ''FROM scratch'')"
    by (simp add: sample_env_def sample_formatter_def)
  have nm: "Base \<noteq> Multi" "Dockerfile \<noteq> Multi" by simp_all
  note t1 = get_presence_check [OF db [OF r(1)] st [OF r(2)] fetch nm(1) self(3) fe,
      THEN conjunct1, rule_format, OF absent]
  note t2 = get_presence_check [OF db [OF r(1)] st [OF r(2)] fetch nm(1) self(3) fe,
      THEN conjunct2, THEN conjunct1, rule_format, OF present]
  note t3 = get_presence_check [OF db [OF dr(1)] st [OF dr(2)] dfetch nm(2) self(3) fe,
      THEN conjunct2, THEN conjunct2, rule_format, OF migr]
  have c1: "get ?e Base (ImageContentGetter_init ''admin'' ''java'' ''sha256:aa'') False ?s =
     (Inl (BadRequest
             ''image content of type (java) was not an available type at analysis time for this image''
             \<lparr>detail_account_id = ''admin'', detail_content_type = Some ''java'',
              detail_image_digest = ''sha256:aa''\<rparr>), ?s1)"
    using t1 unfolding self by simp
  have c3: "fst (get ?de Dockerfile (ImageContentGetter_init ''admin'' ''dockerfile'' ''sha256:aa'')
      False ?ds) = Inr (JStr ''FROM scratch'')"
    using t3 f by simp
  show ?thesis by (intro conjI c1 t2 c3)
qed

text \<open>
  C6 as stated fails for the Dockerfile getter, which also checks the presence of the
  requested type. The document below holds \<open>dockerfile\<close> with an empty payload, which
  the formatter turns into the empty list; the record has the mode \<open>Actual\<close> and a body
  that decodes. \<open>get\<close> passes the check, migrates, and returns the formatted decoded text,
  not the empty result.
\<close>

theorem dockerfile_empty_payload_is_migrated:
  "make_image_content_response
     (sample_env (sample_db (sample_report ''sha256:aa'' ''analyzed'' (Some ''Actual'')
        [\<lparr>dockerfile = Some ''RlJPTSBzY3JhdGNo''\<rparr>]))) (Some ''dockerfile'') (JStr '''') =
     Inr (JArr []) \<and>
   fst (get (sample_env (sample_db (sample_report ''sha256:aa'' ''analyzed'' (Some ''Actual'')
               [\<lparr>dockerfile = Some ''RlJPTSBzY3JhdGNo''\<rparr>])))
          Dockerfile (ImageContentGetter_init ''admin'' ''dockerfile'' ''sha256:aa'') False
          (sample_store [(''admin'', ''image_content_data'', ''sha256:aa'') \<mapsto>
             JsonText (JObj [(''document'', JObj [(''dockerfile'', JStr '''')])])])) =
     Inr (JStr ''FROM scratch'')"
proof -
  let ?g = "ImageContentGetter_init ''admin'' ''dockerfile'' ''sha256:aa''"
  let ?doc = "[(''dockerfile'', JStr '''')]"
  let ?env = "[(''document'', JObj ?doc)]"
  let ?s = "sample_store [(''admin'', ''image_content_data'', ''sha256:aa'') \<mapsto>
      JsonText (JObj ?env)]"
  let ?r = "sample_report ''sha256:aa'' ''analyzed'' (Some ''Actual'')
          [\<lparr>dockerfile = Some ''RlJPTSBzY3JhdGNo''\<rparr>]"
  let ?e = "sample_env (sample_db ?r)"
  have self: "account_id ?g = ''admin''" "image_digest ?g = ''sha256:aa''"
    "content_type ?g = Some ''dockerfile''"
    by (simp_all add: ImageContentGetter_init_def)
  have r: "imageDigest ?r = ''sha256:aa''" "analysis_status ?r = ''analyzed''"
    "dockerfile_mode ?r = Some ''Actual''"
    "image_detail ?r = [] @ \<lparr>dockerfile = Some ''RlJPTSBzY3JhdGNo''\<rparr> # []"
    by (simp_all add: sample_report_def)
  have db: "db_catalog_image_get ?e (image_digest ?g) (account_id ?g) = Some ?r"
    unfolding self by (simp add: sample_env_def sample_db_def sample_report_def)
  have st: "verify_analysis_status ?e ?g ?r False = Inr ()"
    using r(2) by (simp add: verify_analysis_status_def sample_env_def)
  have s: "\<not> get_fails ?s (account_id ?g, ''image_content_data'', image_digest ?g)"
    "objects ?s (account_id ?g, ''image_content_data'', image_digest ?g) =
       Some (JsonText (JObj ?env))"
    "\<not> put_fails ?s (account_id ?g, ''image_content_data'', imageDigest ?r)"
    unfolding self by (simp_all add: sample_store_def)
  have doc: "map_of ?env ''document'' = Some (JObj ?doc)" by simp
  have p: "map_of ?doc ''dockerfile'' = Some (JStr '''')" by simp
  have nodf: "\<forall>q. map_of ?doc ''dockerfile'' = Some q \<longrightarrow> \<not> truthy q" by simp
  have pre: "\<forall>x \<in> set ([] :: image_detail list). dockerfile x = None \<or> dockerfile x = Some []"
    by simp
  have b: "dockerfile \<lparr>dockerfile = Some ''RlJPTSBzY3JhdGNo''\<rparr> = Some ''RlJPTSBzY3JhdGNo''"
    "''RlJPTSBzY3JhdGNo'' \<noteq> []"
    by simp_all
  have d: "decode_dockerfile ?e ''RlJPTSBzY3JhdGNo'' = Inr ''FROM scratch''"
    by (simp add: sample_env_def sample_decode_def)
  have f0: "make_image_content_response ?e (Some ''dockerfile'') (JStr '''') = Inr (JArr [])"
    by (simp add: sample_env_def sample_formatter_def)
  have f: "make_image_content_response ?e (Some ''dockerfile'') (JStr ''FROM scratch'') =
      Inr (JStr ''FROM scratch'')"
    by (simp add: sample_env_def sample_formatter_def)
  note t = get_dockerfile_migrates [OF db st s(1,2) doc self(3) p nodf r(3,4) pre b d s(3)]
  have c: "fst (get ?e Dockerfile ?g False ?s) = Inr (JStr ''FROM scratch'')"
    unfolding t using f by simp
  show ?thesis using f0 c by (rule conjI)
qed

end
